theory Spec2Isabelle
  imports Main
begin

section \<open>JavaScript strings and the string primitives the server uses\<close>

text \<open>
  A JavaScript string is modelled as a \<^typ>\<open>string\<close>, the list of the bytes of its UTF-8
  encoding. The characters the server looks for (backslash, double quote, newline,
  carriage return, tab, the separators \<open>|\<close>, \<open>:\<close>, \<open>, \<close> and the space) are ASCII, and a
  byte of a multi-byte UTF-8 sequence is never an ASCII byte, so replacing and splitting
  on bytes is replacing and splitting on UTF-16 code units.
\<close>

definition backslash :: char where "backslash = CHR 0x5C"
definition dquote :: char where "dquote = CHR 0x22"
definition newline :: char where "newline = CHR 0x0A"
definition creturn :: char where "creturn = CHR 0x0D"
definition tab :: char where "tab = CHR 0x09"

text \<open>
  \<open>str.replace(/c/g, rep)\<close> for a pattern that is one literal character: a single scan from
  the left that emits \<open>rep\<close> for every occurrence of \<open>c\<close> and copies every other character.
  None of the replacement strings of the source contains \<open>$\<close>, so each is inserted literally.
\<close>

fun replace_global :: "char \<Rightarrow> string \<Rightarrow> string \<Rightarrow> string" where
  "replace_global c rep [] = []"
| "replace_global c rep (x # xs) =
     (if x = c then rep @ replace_global c rep xs else x # replace_global c rep xs)"

text \<open>
  \<^verbatim>\<open>
  private escapeForAppleScript(str: string): string {
    return str
      .replace(/\\/g, '\\\\')     // Escape backslashes first
      .replace(/"/g, '\\"')       // Escape double quotes
      .replace(/\n/g, '\\n')      // Escape newlines
      .replace(/\r/g, '\\r')      // Escape carriage returns
      .replace(/\t/g, '\\t');     // Escape tabs
  }
  \<close>
\<close>

definition escapeForAppleScript :: "string \<Rightarrow> string" where
  "escapeForAppleScript str =
     replace_global tab [backslash, CHR ''t'']
       (replace_global creturn [backslash, CHR ''r'']
         (replace_global newline [backslash, CHR ''n'']
           (replace_global dquote [backslash, dquote]
             (replace_global backslash [backslash, backslash] str))))"

subsection \<open>trim, split, join, slice and number printing\<close>

text \<open>
  \<open>String.prototype.trim\<close> removes the ECMAScript white space and line terminator code
  points from both ends. In UTF-8 these are the six ASCII bytes 09, 0A, 0B, 0C, 0D, 20 and
  the multi-byte sequences of U+00A0, U+1680, U+2000 to U+200A, U+2028, U+2029, U+202F,
  U+205F, U+3000 and U+FEFF.
\<close>

definition js_whitespace :: "string list" where
  "js_whitespace =
     [[CHR 0x09], [CHR 0x0A], [CHR 0x0B], [CHR 0x0C], [CHR 0x0D], [CHR 0x20],
      [CHR 0xC2, CHR 0xA0],
      [CHR 0xE1, CHR 0x9A, CHR 0x80],
      [CHR 0xE2, CHR 0x80, CHR 0x80], [CHR 0xE2, CHR 0x80, CHR 0x81],
      [CHR 0xE2, CHR 0x80, CHR 0x82], [CHR 0xE2, CHR 0x80, CHR 0x83],
      [CHR 0xE2, CHR 0x80, CHR 0x84], [CHR 0xE2, CHR 0x80, CHR 0x85],
      [CHR 0xE2, CHR 0x80, CHR 0x86], [CHR 0xE2, CHR 0x80, CHR 0x87],
      [CHR 0xE2, CHR 0x80, CHR 0x88], [CHR 0xE2, CHR 0x80, CHR 0x89],
      [CHR 0xE2, CHR 0x80, CHR 0x8A],
      [CHR 0xE2, CHR 0x80, CHR 0xA8], [CHR 0xE2, CHR 0x80, CHR 0xA9],
      [CHR 0xE2, CHR 0x80, CHR 0xAF],
      [CHR 0xE2, CHR 0x81, CHR 0x9F],
      [CHR 0xE3, CHR 0x80, CHR 0x80],
      [CHR 0xEF, CHR 0xBB, CHR 0xBF]]"

text \<open>The length of the white space code point that \<open>s\<close> starts with, 0 if there is none.\<close>

definition ws_prefix_len :: "string list \<Rightarrow> string \<Rightarrow> nat" where
  "ws_prefix_len ws s =
     (case find (\<lambda>p. take (length p) s = p) ws of None \<Rightarrow> 0 | Some p \<Rightarrow> length p)"

function strip_start :: "string list \<Rightarrow> string \<Rightarrow> string" where
  "strip_start ws s =
     (if s = [] \<or> ws_prefix_len ws s = 0 then s
      else strip_start ws (drop (ws_prefix_len ws s) s))"
  by pat_completeness auto
termination
  by (relation "measure (\<lambda>(ws, s). length s)") auto

definition js_trim :: "string \<Rightarrow> string" where
  "js_trim s = rev (strip_start (map rev js_whitespace) (rev (strip_start js_whitespace s)))"

text \<open>
  \<open>str.split(sep)\<close> for a string separator: the pieces between the non-overlapping
  occurrences of \<open>sep\<close> found from the left; the result always has at least one piece
  (\<open>''.split('|')\<close> is \<open>['']\<close>). The server splits on \<open>', '\<close>, \<open>'|'\<close>, \<open>':'\<close>, \<open>' '\<close> and
  \<open>'###END###'\<close>, \<open>'###SPLIT###'\<close>, never on the empty separator, which is left as a
  single piece here.
\<close>

function js_split_from :: "string \<Rightarrow> string \<Rightarrow> string \<Rightarrow> string list" where
  "js_split_from sep cur [] = [cur]"
| "js_split_from sep cur (c # cs) =
     (if sep \<noteq> [] \<and> take (length sep) (c # cs) = sep
      then cur # js_split_from sep [] (drop (length sep) (c # cs))
      else js_split_from sep (cur @ [c]) cs)"
  by pat_completeness auto
termination
  by (relation "measure (\<lambda>(sep, cur, s). length s)") auto

definition js_split :: "string \<Rightarrow> string \<Rightarrow> string list" where
  "js_split sep s = js_split_from sep [] s"

fun js_join :: "string \<Rightarrow> string list \<Rightarrow> string" where
  "js_join sep [] = []"
| "js_join sep [x] = x"
| "js_join sep (x # y # ys) = x @ sep @ js_join sep (y # ys)"

text \<open>
  \<open>xs.slice(0, end)\<close> for an integer \<open>end\<close>: a negative \<open>end\<close> counts from the end of the
  array, and the bounds are clamped to the array.
\<close>

definition js_slice0 :: "int \<Rightarrow> 'a list \<Rightarrow> 'a list" where
  "js_slice0 e xs =
     (if e < 0 then take (nat (int (length xs) + e)) xs else take (nat e) xs)"

text \<open>\<open>parts[i] || ''\<close>: the element, or the empty string where it is missing or empty.\<close>

definition part_or_empty :: "string list \<Rightarrow> nat \<Rightarrow> string" where
  "part_or_empty parts i = (if i < length parts then parts ! i else [])"

text \<open>
  A number inside a template literal. JavaScript prints an integer of absolute value below
  \<open>10^21\<close> in plain decimal notation, and a larger one with a mantissa and an exponent
  (\<open>-1e+21\<close>). The plain notation is \<open>int_to_decimal\<close>; the exponent notation is not
  computed here and is a parameter, \<open>exponent_form\<close>, of every function that prints a
  number.
\<close>

definition digit_char :: "nat \<Rightarrow> char" where
  "digit_char d = ''0123456789'' ! (d mod 10)"

function nat_to_string :: "nat \<Rightarrow> string" where
  "nat_to_string n =
     (if n < 10 then [digit_char n] else nat_to_string (n div 10) @ [digit_char (n mod 10)])"
  by pat_completeness auto
termination
  by (relation "measure (\<lambda>n. n)") auto

definition int_to_decimal :: "int \<Rightarrow> string" where
  "int_to_decimal i =
     (if i < 0 then CHR ''-'' # nat_to_string (nat (- i)) else nat_to_string (nat i))"

definition number_to_string :: "(int \<Rightarrow> string) \<Rightarrow> int \<Rightarrow> string" where
  "number_to_string exponent_form i =
     (if \<bar>i\<bar> < 10 ^ 21 then int_to_decimal i else exponent_form i)"

subsection \<open>The escaper as the specification words it\<close>

text \<open>
  The specification lists the substitutions as an ordered table: backslash to escaped
  backslash, double quote to escaped double quote, then newline, carriage return and tab
  to their two-character forms. \<open>spec_escape\<close> runs the table from its first row to its last.
\<close>

definition spec_substitute :: "char \<times> string \<Rightarrow> string \<Rightarrow> string" where
  "spec_substitute row s = concat (map (\<lambda>x. if x = fst row then snd row else [x]) s)"

definition spec_substitutions :: "(char \<times> string) list" where
  "spec_substitutions =
     [(backslash, [backslash, backslash]),
      (dquote, [backslash, dquote]),
      (newline, [backslash, CHR ''n'']),
      (creturn, [backslash, CHR ''r'']),
      (tab, [backslash, CHR ''t''])]"

definition spec_escape :: "string \<Rightarrow> string" where
  "spec_escape s = foldl (\<lambda>acc row. spec_substitute row acc) s spec_substitutions"

text \<open>The effect of the whole chain on one character.\<close>

definition escape_char :: "char \<Rightarrow> string" where
  "escape_char x =
     (if x = backslash then [backslash, backslash]
      else if x = dquote then [backslash, dquote]
      else if x = newline then [backslash, CHR ''n'']
      else if x = creturn then [backslash, CHR ''r'']
      else if x = tab then [backslash, CHR ''t'']
      else [x])"

section \<open>The script executor\<close>

text \<open>
  The external interpreter is a parameter of the model: \<open>osa w script\<close> runs \<open>script\<close>
  against the state \<open>w\<close> of the contact store and gives the new state together with either
  the captured standard output (\<open>Inr\<close>) or, when \<open>execSync\<close> throws, the printed form of
  what it threw (\<open>Inl\<close>).
\<close>

type_synonym 'w osascript = "'w \<Rightarrow> string \<Rightarrow> (string + string) \<times> 'w"

datatype exn = Error string

text \<open>An \<open>Error\<close> inside a template literal prints as its name and message.\<close>

fun error_to_string :: "exn \<Rightarrow> string" where
  "error_to_string (Error m) = (if m = [] then ''Error'' else ''Error: '' @ m)"

text \<open>
  \<^verbatim>\<open>
  private executeAppleScript(script: string): string {
    try {
      const result = execSync(`osascript`, { input: script, encoding: 'utf8' }).trim();
      return result;
    } catch (error: any) {
      throw new Error(`AppleScript execution failed: ${error}`);
    }
  }
  \<close>
\<close>

definition executeAppleScript :: "'w osascript \<Rightarrow> 'w \<Rightarrow> string \<Rightarrow> (exn + string) \<times> 'w" where
  "executeAppleScript osa w script =
     (case osa w script of
        (Inr out, w') \<Rightarrow> (Inr (js_trim out), w')
      | (Inl err, w') \<Rightarrow> (Inl (Error (''AppleScript execution failed: '' @ err)), w'))"

section \<open>Search\<close>

record search_args =
  sa_query :: "string option"
  sa_limit :: "int option"

record contact_summary =
  cs_name :: string
  cs_organization :: string

record search_response =
  sr_success :: bool
  sr_count :: nat
  sr_contacts :: "contact_summary list"

definition search_query_script :: "string \<Rightarrow> string" where
  \<open>search_query_script query =
     ''tell application "Contacts" to return name of people whose name contains "'' @ query @ ''"''\<close>

definition search_list_script :: "(int \<Rightarrow> string) \<Rightarrow> int \<Rightarrow> string" where
  \<open>search_list_script exponent_form limit =
     ''tell application "Contacts"\<newline>'' @
     ''  set contactList to {}\<newline>'' @
     ''  set allPeople to people\<newline>'' @
     ''  repeat with i from 1 to '' @ number_to_string exponent_form (min limit 10) @ ''\<newline>'' @
     ''    if i > (count of allPeople) then exit repeat\<newline>'' @
     ''    set aPerson to item i of allPeople\<newline>'' @
     ''    set end of contactList to name of aPerson\<newline>'' @
     ''  end repeat\<newline>'' @
     ''  return contactList\<newline>'' @
     ''end tell''\<close>

definition names_to_contacts :: "string list \<Rightarrow> contact_summary list" where
  "names_to_contacts names =
     map (\<lambda>name. \<lparr>cs_name = js_trim name, cs_organization = []\<rparr>) names"

text \<open>
  \<open>searchContacts\<close>: \<open>limit\<close> defaults to 20; \<open>if (query)\<close> takes the first branch for a
  non-empty query string. The first branch splits the output whatever it is; the second
  guards the split with \<open>result ? ... : []\<close>. Every exception is rethrown as
  \<open>Search failed: ...\<close>.
\<close>

definition searchContacts ::
  "(int \<Rightarrow> string) \<Rightarrow> 'w osascript \<Rightarrow> 'w \<Rightarrow> search_args \<Rightarrow>
     (exn + search_response) \<times> 'w" where
  "searchContacts exponent_form osa w args =
     (let limit = (case sa_limit args of None \<Rightarrow> 20 | Some l \<Rightarrow> l);
          query = (case sa_query args of None \<Rightarrow> [] | Some q \<Rightarrow> q)
      in if query \<noteq> [] then
           (case executeAppleScript osa w (search_query_script query) of
              (Inl e, w') \<Rightarrow> (Inl (Error (''Search failed: '' @ error_to_string e)), w')
            | (Inr result, w') \<Rightarrow>
                (let names = js_slice0 limit (js_split '', '' result);
                     contacts = names_to_contacts names
                 in (Inr \<lparr>sr_success = True, sr_count = length contacts,
                           sr_contacts = contacts\<rparr>, w')))
         else
           (case executeAppleScript osa w (search_list_script exponent_form limit) of
              (Inl e, w') \<Rightarrow> (Inl (Error (''Search failed: '' @ error_to_string e)), w')
            | (Inr result, w') \<Rightarrow>
                (let names = (if result \<noteq> [] then js_slice0 limit (js_split '', '' result)
                              else []);
                     contacts = names_to_contacts names
                 in (Inr \<lparr>sr_success = True, sr_count = length contacts,
                           sr_contacts = contacts\<rparr>, w'))))"

section \<open>Fetch\<close>

record url =
  url_label :: string
  url_value :: string

record contact =
  c_id :: string
  c_name :: string
  c_organization :: string
  c_job_title :: string
  c_note :: string
  c_emails :: "string list"
  c_phones :: "string list"
  c_urls :: "url list"

record get_response =
  g_success :: bool
  g_message :: "string option"
  g_contact :: "contact option"

definition get_contact_script :: "string \<Rightarrow> string" where
  \<open>get_contact_script identifier =
     ''tell application "Contacts"\<newline>'' @
     ''  try\<newline>'' @
     ''    set targetPerson to person id "'' @ identifier @ ''"\<newline>'' @
     ''  on error\<newline>'' @
     ''    try\<newline>'' @
     ''      set targetPerson to person "'' @ identifier @ ''"\<newline>'' @
     ''    on error\<newline>'' @
     ''      return "Contact not found"\<newline>'' @
     ''    end try\<newline>'' @
     ''  end try\<newline>'' @
     ''  \<newline>'' @
     ''  return id of targetPerson & "|" & name of targetPerson & "|" & organization of targetPerson & "|" & job title of targetPerson & "|" & note of targetPerson\<newline>'' @
     ''end tell''\<close>

definition email_script :: "string \<Rightarrow> string" where
  \<open>email_script contact_id =
     ''tell application "Contacts"\<newline>'' @
     ''  set targetPerson to person id "'' @ contact_id @ ''"\<newline>'' @
     ''  set emailList to {}\<newline>'' @
     ''  repeat with anEmail in emails of targetPerson\<newline>'' @
     ''    set end of emailList to value of anEmail\<newline>'' @
     ''  end repeat\<newline>'' @
     ''  return emailList\<newline>'' @
     ''end tell''\<close>

definition phone_script :: "string \<Rightarrow> string" where
  \<open>phone_script contact_id =
     ''tell application "Contacts"\<newline>'' @
     ''  set targetPerson to person id "'' @ contact_id @ ''"\<newline>'' @
     ''  set phoneList to {}\<newline>'' @
     ''  repeat with aPhone in phones of targetPerson\<newline>'' @
     ''    set end of phoneList to value of aPhone\<newline>'' @
     ''  end repeat\<newline>'' @
     ''  return phoneList\<newline>'' @
     ''end tell''\<close>

definition url_script :: "string \<Rightarrow> string" where
  \<open>url_script contact_id =
     ''tell application "Contacts"\<newline>'' @
     ''  set targetPerson to person id "'' @ contact_id @ ''"\<newline>'' @
     ''  set urlList to {}\<newline>'' @
     ''  repeat with aUrl in urls of targetPerson\<newline>'' @
     ''    set end of urlList to (label of aUrl & ":" & value of aUrl)\<newline>'' @
     ''  end repeat\<newline>'' @
     ''  return urlList\<newline>'' @
     ''end tell''\<close>

text \<open>
  \<^verbatim>\<open>
  const [label, ...valueParts] = item.split(':');
  return { label: label || '', value: valueParts.join(':') || '' };
  \<close>
\<close>

definition parse_url_item :: "string \<Rightarrow> url" where
  "parse_url_item item =
     (case js_split '':'' item of
        [] \<Rightarrow> \<lparr>url_label = [], url_value = []\<rparr>
      | label # valueParts \<Rightarrow> \<lparr>url_label = label, url_value = js_join '':'' valueParts\<rparr>)"

text \<open>
  The three list scripts of \<open>getContact\<close>, each in its own \<open>try\<close>: a script that throws
  leaves the empty array, empty output is the empty array, anything else is split on
  \<open>', '\<close>.
\<close>

definition fetch_list :: "'w osascript \<Rightarrow> 'w \<Rightarrow> string \<Rightarrow> string list \<times> 'w" where
  "fetch_list osa w script =
     (case executeAppleScript osa w script of
        (Inl e, w') \<Rightarrow> ([], w')
      | (Inr result, w') \<Rightarrow> (if result \<noteq> [] then js_split '', '' result else [], w'))"

definition getContact ::
  "'w osascript \<Rightarrow> 'w \<Rightarrow> string \<Rightarrow> (exn + get_response) \<times> 'w" where
  "getContact osa w identifier =
     (case executeAppleScript osa w (get_contact_script identifier) of
        (Inl e, w1) \<Rightarrow> (Inl (Error (''Get contact failed: '' @ error_to_string e)), w1)
      | (Inr result, w1) \<Rightarrow>
          if result = ''Contact not found''
          then (Inr \<lparr>g_success = False, g_message = Some ''Contact not found'',
                      g_contact = None\<rparr>, w1)
          else
            (let parts = js_split ''|'' result;
                 cid = part_or_empty parts 0;
                 (emails, w2) = fetch_list osa w1 (email_script cid);
                 (phones, w3) = fetch_list osa w2 (phone_script cid);
                 (urls, w4) = fetch_list osa w3 (url_script cid)
             in (Inr \<lparr>g_success = True, g_message = None,
                        g_contact = Some
                          \<lparr>c_id = cid,
                           c_name = part_or_empty parts 1,
                           c_organization = part_or_empty parts 2,
                           c_job_title = part_or_empty parts 3,
                           c_note = part_or_empty parts 4,
                           c_emails = emails,
                           c_phones = phones,
                           c_urls = map parse_url_item urls\<rparr>\<rparr>, w4)))"

section \<open>Create\<close>

text \<open>
  \<open>xs.forEach((x, index) => ...)\<close> where the callback updates a captured variable: the
  variable is threaded through the calls, the index counts from 0.
\<close>

fun forEach_from :: "('a \<Rightarrow> nat \<Rightarrow> 's \<Rightarrow> 's) \<Rightarrow> 'a list \<Rightarrow> nat \<Rightarrow> 's \<Rightarrow> 's" where
  "forEach_from f [] index s = s"
| "forEach_from f (x # xs) index s = forEach_from f xs (Suc index) (f x index s)"

definition forEach :: "('a \<Rightarrow> nat \<Rightarrow> 's \<Rightarrow> 's) \<Rightarrow> 'a list \<Rightarrow> 's \<Rightarrow> 's" where
  "forEach f xs s = forEach_from f xs 0 s"

text \<open>
  \<^verbatim>\<open>
  const nameParts = name.trim().split(' ');
  const firstName = nameParts[0] || '';
  const lastName = nameParts.length > 1 ? nameParts.slice(1).join(' ') : '';
  \<close>
\<close>

definition firstName_of :: "string \<Rightarrow> string" where
  "firstName_of name = part_or_empty (js_split '' '' (js_trim name)) 0"

definition lastName_of :: "string \<Rightarrow> string" where
  "lastName_of name =
     (let nameParts = js_split '' '' (js_trim name)
      in if length nameParts > 1 then js_join '' '' (drop 1 nameParts) else [])"

text \<open>
  \<^verbatim>\<open>
  const label = index === 0 ? 'home' : index === 1 ? 'work' : `email${index + 1}`;
  const label = index === 0 ? 'home' : index === 1 ? 'work' : `phone${index + 1}`;
  \<close>
\<close>

definition email_label :: "nat \<Rightarrow> string" where
  "email_label index =
     (if index = 0 then ''home'' else if index = 1 then ''work''
      else ''email'' @ nat_to_string (index + 1))"

definition phone_label :: "nat \<Rightarrow> string" where
  "phone_label index =
     (if index = 0 then ''home'' else if index = 1 then ''work''
      else ''phone'' @ nat_to_string (index + 1))"

record create_args =
  ca_name :: string
  ca_organization :: "string option"
  ca_job_title :: "string option"
  ca_emails :: "string list option"
  ca_phones :: "string list option"
  ca_urls :: "url list option"
  ca_note :: "string option"

record contact_input =
  ci_name :: string
  ci_organization :: string
  ci_job_title :: string
  ci_emails :: "string list"
  ci_phones :: "string list"
  ci_urls :: "url list"
  ci_note :: string

record create_response =
  cr_success :: bool
  cr_message :: string
  cr_contact_id :: string
  cr_contact :: contact_input

text \<open>The destructuring of \<open>args\<close> with its defaults.\<close>

definition create_defaults :: "create_args \<Rightarrow> contact_input" where
  "create_defaults args =
     \<lparr>ci_name = ca_name args,
      ci_organization = (case ca_organization args of None \<Rightarrow> [] | Some v \<Rightarrow> v),
      ci_job_title = (case ca_job_title args of None \<Rightarrow> [] | Some v \<Rightarrow> v),
      ci_emails = (case ca_emails args of None \<Rightarrow> [] | Some v \<Rightarrow> v),
      ci_phones = (case ca_phones args of None \<Rightarrow> [] | Some v \<Rightarrow> v),
      ci_urls = (case ca_urls args of None \<Rightarrow> [] | Some v \<Rightarrow> v),
      ci_note = (case ca_note args of None \<Rightarrow> [] | Some v \<Rightarrow> v)\<rparr>"

definition create_script_head :: "string \<Rightarrow> string \<Rightarrow> string \<Rightarrow> string \<Rightarrow> string \<Rightarrow> string" where
  \<open>create_script_head firstName lastName organization job_title note =
     ''\<newline>'' @
     ''      tell application "Contacts"\<newline>'' @
     ''        set newPerson to make new person\<newline>'' @
     ''        \<newline>'' @
     ''        if "'' @ escapeForAppleScript firstName @ ''" is not "" then\<newline>'' @
     ''          set first name of newPerson to "'' @ escapeForAppleScript firstName @ ''"\<newline>'' @
     ''        end if\<newline>'' @
     ''        \<newline>'' @
     ''        if "'' @ escapeForAppleScript lastName @ ''" is not "" then\<newline>'' @
     ''          set last name of newPerson to "'' @ escapeForAppleScript lastName @ ''"\<newline>'' @
     ''        end if\<newline>'' @
     ''        \<newline>'' @
     ''        if "'' @ escapeForAppleScript organization @ ''" is not "" then\<newline>'' @
     ''          set organization of newPerson to "'' @ escapeForAppleScript organization @ ''"\<newline>'' @
     ''        end if\<newline>'' @
     ''        \<newline>'' @
     ''        if "'' @ escapeForAppleScript job_title @ ''" is not "" then\<newline>'' @
     ''          set job title of newPerson to "'' @ escapeForAppleScript job_title @ ''"\<newline>'' @
     ''        end if\<newline>'' @
     ''        \<newline>'' @
     ''        if "'' @ escapeForAppleScript note @ ''" is not "" then\<newline>'' @
     ''          set note of newPerson to "'' @ escapeForAppleScript note @ ''"\<newline>'' @
     ''        end if\<newline>'' @
     ''    ''\<close>

definition create_email_line :: "string \<Rightarrow> nat \<Rightarrow> string \<Rightarrow> string" where
  \<open>create_email_line email index script =
     script @
       ''\<newline>'' @
       ''        make new email at end of emails of newPerson with properties {label:"'' @ email_label index @ ''", value:"'' @ escapeForAppleScript email @ ''"}''\<close>

definition create_phone_line :: "string \<Rightarrow> nat \<Rightarrow> string \<Rightarrow> string" where
  \<open>create_phone_line phone index script =
     script @
       ''\<newline>'' @
       ''        make new phone at end of phones of newPerson with properties {label:"'' @ phone_label index @ ''", value:"'' @ escapeForAppleScript phone @ ''"}''\<close>

definition create_url_line :: "url \<Rightarrow> nat \<Rightarrow> string \<Rightarrow> string" where
  \<open>create_url_line u index script =
     script @
       ''\<newline>'' @
       ''        make new url at end of urls of newPerson with properties {label:"'' @ escapeForAppleScript (url_label u) @ ''", value:"'' @ escapeForAppleScript (url_value u) @ ''"}''\<close>

definition create_script_tail :: string where
  \<open>create_script_tail =
     ''\<newline>'' @
     ''        save\<newline>'' @
     ''        return id of newPerson\<newline>'' @
     ''      end tell\<newline>'' @
     ''    ''\<close>

definition create_script :: "contact_input \<Rightarrow> string" where
  "create_script c =
     (let script = create_script_head (firstName_of (ci_name c)) (lastName_of (ci_name c))
                     (ci_organization c) (ci_job_title c) (ci_note c);
          script = (if length (ci_emails c) > 0
                    then forEach create_email_line (ci_emails c) script else script);
          script = (if length (ci_phones c) > 0
                    then forEach create_phone_line (ci_phones c) script else script);
          script = (if length (ci_urls c) > 0
                    then forEach create_url_line (ci_urls c) script else script)
      in script @ create_script_tail)"

definition createContact ::
  "'w osascript \<Rightarrow> 'w \<Rightarrow> create_args \<Rightarrow> (exn + create_response) \<times> 'w" where
  "createContact osa w args =
     (let c = create_defaults args
      in case executeAppleScript osa w (create_script c) of
           (Inl e, w') \<Rightarrow>
             (Inl (Error (''Create contact failed: '' @ error_to_string e)), w')
         | (Inr contactId, w') \<Rightarrow>
             (Inr \<lparr>cr_success = True, cr_message = ''Created contact: '' @ ci_name c,
                    cr_contact_id = contactId, cr_contact = c\<rparr>, w'))"

section \<open>Update\<close>

record update_args =
  ua_identifier :: string
  ua_name :: "string option"
  ua_organization :: "string option"
  ua_job_title :: "string option"
  ua_emails :: "string list option"
  ua_phones :: "string list option"
  ua_urls :: "url list option"
  ua_note :: "string option"

record update_response =
  ur_success :: bool
  ur_message :: string
  ur_updated_fields :: "string list"

text \<open>
  What \<open>updateContact\<close> carries from one field to the next: the state of the store, the
  array \<open>updatedFields\<close>, and the calls of \<open>console.error\<close> made so far, each with its
  message and the exception it printed.
\<close>

record 'w update_state =
  us_world :: 'w
  us_updatedFields :: "string list"
  us_console :: "(string \<times> exn) list"

definition update_name_script :: "string \<Rightarrow> string \<Rightarrow> string" where
  \<open>update_name_script contactId name =
     ''tell application "Contacts"\<newline>'' @
     ''  set targetPerson to person id "'' @ contactId @ ''"\<newline>'' @
     ''  set first name of targetPerson to "'' @ escapeForAppleScript (firstName_of name) @ ''"\<newline>'' @
     ''  set last name of targetPerson to "'' @ escapeForAppleScript (lastName_of name) @ ''"\<newline>'' @
     ''  save\<newline>'' @
     ''end tell''\<close>

definition update_organization_script :: "string \<Rightarrow> string \<Rightarrow> string" where
  \<open>update_organization_script contactId organization =
     ''tell application "Contacts"\<newline>'' @
     ''  set targetPerson to person id "'' @ contactId @ ''"\<newline>'' @
     ''  set organization of targetPerson to "'' @ escapeForAppleScript organization @ ''"\<newline>'' @
     ''  save\<newline>'' @
     ''end tell''\<close>

definition update_job_title_script :: "string \<Rightarrow> string \<Rightarrow> string" where
  \<open>update_job_title_script contactId job_title =
     ''tell application "Contacts"\<newline>'' @
     ''  set targetPerson to person id "'' @ contactId @ ''"\<newline>'' @
     ''  set job title of targetPerson to "'' @ escapeForAppleScript job_title @ ''"\<newline>'' @
     ''  save\<newline>'' @
     ''end tell''\<close>

definition update_note_script :: "string \<Rightarrow> string \<Rightarrow> string" where
  \<open>update_note_script contactId note =
     ''tell application "Contacts"\<newline>'' @
     ''  set targetPerson to person id "'' @ contactId @ ''"\<newline>'' @
     ''  set note of targetPerson to "'' @ escapeForAppleScript note @ ''"\<newline>'' @
     ''  save\<newline>'' @
     ''end tell''\<close>

definition clear_url_script :: "string \<Rightarrow> string" where
  \<open>clear_url_script contactId =
     ''tell application "Contacts"\<newline>'' @
     ''  set targetPerson to person id "'' @ contactId @ ''"\<newline>'' @
     ''  delete every url of targetPerson\<newline>'' @
     ''  save\<newline>'' @
     ''end tell''\<close>

definition clear_email_script :: "string \<Rightarrow> string" where
  \<open>clear_email_script contactId =
     ''tell application "Contacts"\<newline>'' @
     ''  set targetPerson to person id "'' @ contactId @ ''"\<newline>'' @
     ''  delete every email of targetPerson\<newline>'' @
     ''  save\<newline>'' @
     ''end tell''\<close>

definition clear_phone_script :: "string \<Rightarrow> string" where
  \<open>clear_phone_script contactId =
     ''tell application "Contacts"\<newline>'' @
     ''  set targetPerson to person id "'' @ contactId @ ''"\<newline>'' @
     ''  delete every phone of targetPerson\<newline>'' @
     ''  save\<newline>'' @
     ''end tell''\<close>

definition add_script_head :: "string \<Rightarrow> string" where
  \<open>add_script_head contactId =
     ''tell application "Contacts"\<newline>'' @
     ''  set targetPerson to person id "'' @ contactId @ ''"''\<close>

definition add_script_tail :: string where
  \<open>add_script_tail =
     ''\<newline>'' @
     ''  save\<newline>'' @
     ''end tell''\<close>

definition add_url_line :: "url \<Rightarrow> nat \<Rightarrow> string \<Rightarrow> string" where
  \<open>add_url_line u index script =
     script @
       ''\<newline>'' @
       ''  make new url at end of urls of targetPerson with properties {label:"'' @ escapeForAppleScript (url_label u) @ ''", value:"'' @ escapeForAppleScript (url_value u) @ ''"}''\<close>

definition add_email_line :: "string \<Rightarrow> nat \<Rightarrow> string \<Rightarrow> string" where
  \<open>add_email_line email index script =
     script @
       ''\<newline>'' @
       ''  make new email at end of emails of targetPerson with properties {label:"'' @ email_label index @ ''", value:"'' @ escapeForAppleScript email @ ''"}''\<close>

definition add_phone_line :: "string \<Rightarrow> nat \<Rightarrow> string \<Rightarrow> string" where
  \<open>add_phone_line phone index script =
     script @
       ''\<newline>'' @
       ''  make new phone at end of phones of targetPerson with properties {label:"'' @ phone_label index @ ''", value:"'' @ escapeForAppleScript phone @ ''"}''\<close>

definition add_url_script :: "string \<Rightarrow> url list \<Rightarrow> string" where
  "add_url_script contactId urls =
     forEach add_url_line urls (add_script_head contactId) @ add_script_tail"

definition add_email_script :: "string \<Rightarrow> string list \<Rightarrow> string" where
  "add_email_script contactId emails =
     forEach add_email_line emails (add_script_head contactId) @ add_script_tail"

definition add_phone_script :: "string \<Rightarrow> string list \<Rightarrow> string" where
  "add_phone_script contactId phones =
     forEach add_phone_line phones (add_script_head contactId) @ add_script_tail"

text \<open>
  The body of one \<open>try\<close> block is a sequence of \<open>executeAppleScript\<close> calls; the first one
  that throws ends the block with its exception.
\<close>

fun run_scripts :: "'w osascript \<Rightarrow> 'w \<Rightarrow> string list \<Rightarrow> exn option \<times> 'w" where
  "run_scripts osa w [] = (None, w)"
| "run_scripts osa w (script # rest) =
     (case executeAppleScript osa w script of
        (Inl e, w') \<Rightarrow> (Some e, w')
      | (Inr out, w') \<Rightarrow> run_scripts osa w' rest)"

text \<open>
  Each field of \<open>updateContact\<close> has the same shape:
  \<^verbatim>\<open>
  if (updates.f !== undefined) {
    try { ...scripts...; updatedFields.push('f'); }
    catch (error) { console.error('Failed to update f:', error); }
  }
  \<close>
  \<open>field_scripts\<close> is \<open>None\<close> for a field that the request leaves undefined.
\<close>

definition try_update ::
  "'w osascript \<Rightarrow> string \<Rightarrow> string \<Rightarrow> string list option \<Rightarrow> 'w update_state \<Rightarrow> 'w update_state" where
  "try_update osa field message field_scripts st =
     (case field_scripts of
        None \<Rightarrow> st
      | Some scripts \<Rightarrow>
          (case run_scripts osa (us_world st) scripts of
             (None, w') \<Rightarrow>
               st\<lparr>us_world := w', us_updatedFields := us_updatedFields st @ [field]\<rparr>
           | (Some e, w') \<Rightarrow>
               st\<lparr>us_world := w', us_console := us_console st @ [(message, e)]\<rparr>))"

text \<open>The scripts of each field, in the order in which its \<open>try\<close> block runs them.\<close>

definition name_scripts :: "string \<Rightarrow> update_args \<Rightarrow> string list option" where
  "name_scripts contactId updates =
     map_option (\<lambda>name. [update_name_script contactId name]) (ua_name updates)"

definition organization_scripts :: "string \<Rightarrow> update_args \<Rightarrow> string list option" where
  "organization_scripts contactId updates =
     map_option (\<lambda>v. [update_organization_script contactId v]) (ua_organization updates)"

definition job_title_scripts :: "string \<Rightarrow> update_args \<Rightarrow> string list option" where
  "job_title_scripts contactId updates =
     map_option (\<lambda>v. [update_job_title_script contactId v]) (ua_job_title updates)"

definition note_scripts :: "string \<Rightarrow> update_args \<Rightarrow> string list option" where
  "note_scripts contactId updates =
     map_option (\<lambda>v. [update_note_script contactId v]) (ua_note updates)"

definition urls_scripts :: "string \<Rightarrow> update_args \<Rightarrow> string list option" where
  "urls_scripts contactId updates =
     map_option (\<lambda>urls. clear_url_script contactId #
                   (if length urls > 0 then [add_url_script contactId urls] else []))
       (ua_urls updates)"

definition emails_scripts :: "string \<Rightarrow> update_args \<Rightarrow> string list option" where
  "emails_scripts contactId updates =
     map_option (\<lambda>emails. clear_email_script contactId #
                   (if length emails > 0 then [add_email_script contactId emails] else []))
       (ua_emails updates)"

definition phones_scripts :: "string \<Rightarrow> update_args \<Rightarrow> string list option" where
  "phones_scripts contactId updates =
     map_option (\<lambda>phones. clear_phone_script contactId #
                   (if length phones > 0 then [add_phone_script contactId phones] else []))
       (ua_phones updates)"

text \<open>The seven blocks in the order of the source: name, organization, job title, note,
  urls, emails, phones.\<close>

definition update_fields ::
  "'w osascript \<Rightarrow> string \<Rightarrow> update_args \<Rightarrow> 'w update_state \<Rightarrow> 'w update_state" where
  "update_fields osa contactId updates st =
     try_update osa ''phones'' ''Failed to update phones:'' (phones_scripts contactId updates)
      (try_update osa ''emails'' ''Failed to update emails:'' (emails_scripts contactId updates)
       (try_update osa ''urls'' ''Failed to update URLs:'' (urls_scripts contactId updates)
        (try_update osa ''note'' ''Failed to update note:'' (note_scripts contactId updates)
         (try_update osa ''job_title'' ''Failed to update job title:''
            (job_title_scripts contactId updates)
          (try_update osa ''organization'' ''Failed to update organization:''
             (organization_scripts contactId updates)
           (try_update osa ''name'' ''Failed to update name:''
              (name_scripts contactId updates) st))))))"

text \<open>
  \<open>updateContact\<close>: the existence check is outside every \<open>try\<close>, so an exception of
  \<open>getContact\<close> and the \<open>Contact not found\<close> error leave the function; after it, the
  function returns \<open>success: true\<close> whatever the fields did. \<open>getContact\<close> never
  reports success without a contact, so the last case stands for \<open>success: false\<close> only.
\<close>

definition updateContact ::
  "'w osascript \<Rightarrow> 'w \<Rightarrow> update_args \<Rightarrow> (exn + update_response) \<times> 'w update_state" where
  "updateContact osa w args =
     (case getContact osa w (ua_identifier args) of
        (Inl e, w1) \<Rightarrow>
          (Inl e, \<lparr>us_world = w1, us_updatedFields = [], us_console = []\<rparr>)
      | (Inr existingContact, w1) \<Rightarrow>
          (case (g_success existingContact, g_contact existingContact) of
             (True, Some c) \<Rightarrow>
               (let st = update_fields osa (c_id c) args
                           \<lparr>us_world = w1, us_updatedFields = [], us_console = []\<rparr>
                in (Inr \<lparr>ur_success = True,
                          ur_message = ''Updated contact: '' @ ua_identifier args,
                          ur_updated_fields = us_updatedFields st\<rparr>, st))
           | _ \<Rightarrow>
               (Inl (Error ''Contact not found''),
                \<lparr>us_world = w1, us_updatedFields = [], us_console = []\<rparr>)))"

section \<open>Recent contacts\<close>








section \<open>Observing an operation from outside\<close>

text \<open>
  The operations are parametric in the interpreter, so the scripts an operation runs can be
  read off by running it on an interpreter that writes down every script it is given,
  in order, next to the state of the store.
\<close>

definition logging :: "'w osascript \<Rightarrow> ('w \<times> string list) osascript" where
  "logging osa ws script =
     (case osa (fst ws) script of (r, w') \<Rightarrow> (r, (w', snd ws @ [script])))"

text \<open>
  \<open>haystack.startsWith(needle)\<close> and \<open>haystack.includes(needle)\<close>, used by the sample
  interpreters below to tell the scripts apart.
\<close>

fun starts_with :: "string \<Rightarrow> string \<Rightarrow> bool" where
  "starts_with [] s = True"
| "starts_with (n # ns) [] = False"
| "starts_with (n # ns) (c # cs) = (if n = c then starts_with ns cs else False)"

fun js_includes :: "string \<Rightarrow> string \<Rightarrow> bool" where
  "js_includes needle [] = (needle = [])"
| "js_includes needle (c # cs) =
     (if starts_with needle (c # cs) then True else js_includes needle cs)"

text \<open>
  A sample store with one contact. It answers the scalar script of \<open>getContact\<close> and the
  email script, fails on the phone script and on every script that sets a note, and
  prints nothing for anything else.
\<close>

definition sample_store :: "unit osascript" where
  \<open>sample_store w script =
     (if js_includes ''return id of targetPerson'' script
        then Inr ''ABC-1|Ada Lovelace|Analytical Engines||\<newline>''
      else if js_includes ''return emailList'' script then Inr ''ada@example.com\<newline>''
      else if js_includes ''return phoneList'' script
        then Inl ''Error: Command failed: osascript''
      else if js_includes ''set note of'' script
        then Inl ''Error: Command failed: osascript''
      else Inr ''\<newline>'', w)\<close>

text \<open>A store without contacts: every lookup ends in the sentinel of the fetch script.\<close>

definition empty_store :: "unit osascript" where
  \<open>empty_store w script =
     (if js_includes ''return "Contact not found"'' script
        then Inr ''Contact not found\<newline>''
      else Inr ''\<newline>'', w)\<close>

text \<open>
  A store without contacts behind an interpreter that checks the string literals of a
  script before it runs it: a literal that is not closed, or that is followed by
  anything but white space, a comma or a closing bracket, is a syntax error, and
  \<open>osascript\<close> exits with an error. \<open>bad_literal in_literal s\<close> scans \<open>s\<close> with the
  flag telling whether the scan is inside a literal; a backslash inside a literal
  escapes the character after it.
\<close>

fun bad_literal :: "bool \<Rightarrow> string \<Rightarrow> bool" where
  "bad_literal in_literal [] = in_literal"
| "bad_literal False (c # cs) =
     (if c = dquote then bad_literal True cs else bad_literal False cs)"
| "bad_literal True (c # cs) =
     (if c = backslash then (case cs of [] \<Rightarrow> True | e # rest \<Rightarrow> bad_literal True rest)
      else if c = dquote
        then (case cs of [] \<Rightarrow> False
              | n # rest \<Rightarrow> if n \<in> set '' ,})\<newline>'' then bad_literal False cs else True)
      else bad_literal True cs)"

definition checking_store :: "unit osascript" where
  \<open>checking_store w script =
     (if bad_literal False script then Inl ''Error: Command failed: osascript''
      else if js_includes ''return "Contact not found"'' script
        then Inr ''Contact not found\<newline>''
      else Inr ''\<newline>'', w)\<close>

text \<open>
  The seven blocks of \<open>updateContact\<close> as a table read off the request, in the order of
  the source: the field name that is pushed, the message that is logged, and the scripts
  of the block, \<open>None\<close> for a field that the request leaves undefined. A scalar field has
  one script; a collection has the script that clears it and, for a non-empty list, the
  script that adds the supplied entries.
\<close>

definition update_blocks ::
  "string \<Rightarrow> update_args \<Rightarrow> (string \<times> string \<times> string list option) list" where
  "update_blocks contactId updates =
     [(''name'', ''Failed to update name:'',
         case ua_name updates of None \<Rightarrow> None
         | Some name \<Rightarrow> Some [update_name_script contactId name]),
      (''organization'', ''Failed to update organization:'',
         case ua_organization updates of None \<Rightarrow> None
         | Some organization \<Rightarrow> Some [update_organization_script contactId organization]),
      (''job_title'', ''Failed to update job title:'',
         case ua_job_title updates of None \<Rightarrow> None
         | Some job_title \<Rightarrow> Some [update_job_title_script contactId job_title]),
      (''note'', ''Failed to update note:'',
         case ua_note updates of None \<Rightarrow> None
         | Some note \<Rightarrow> Some [update_note_script contactId note]),
      (''urls'', ''Failed to update URLs:'',
         case ua_urls updates of None \<Rightarrow> None
         | Some urls \<Rightarrow>
             Some (clear_url_script contactId #
                   (if urls = [] then [] else [add_url_script contactId urls]))),
      (''emails'', ''Failed to update emails:'',
         case ua_emails updates of None \<Rightarrow> None
         | Some emails \<Rightarrow>
             Some (clear_email_script contactId #
                   (if emails = [] then [] else [add_email_script contactId emails]))),
      (''phones'', ''Failed to update phones:'',
         case ua_phones updates of None \<Rightarrow> None
         | Some phones \<Rightarrow>
             Some (clear_phone_script contactId #
                   (if phones = [] then [] else [add_phone_script contactId phones])))]"

text \<open>
  What happened to each block whose field the request defines, in order: the field, the
  message, and the exception that ended the block, \<open>None\<close> when all its scripts succeeded.
  Each block starts in the state of the store that the block before it left.
\<close>

fun block_outcomes ::
  "'w osascript \<Rightarrow> 'w \<Rightarrow> (string \<times> string \<times> string list option) list \<Rightarrow>
     (string \<times> string \<times> exn option) list" where
  "block_outcomes osa w [] = []"
| "block_outcomes osa w ((field, message, None) # blocks) = block_outcomes osa w blocks"
| "block_outcomes osa w ((field, message, Some scripts) # blocks) =
     (field, message, fst (run_scripts osa w scripts)) #
     block_outcomes osa (snd (run_scripts osa w scripts)) blocks"

definition succeeded_fields :: "(string \<times> string \<times> exn option) list \<Rightarrow> string list" where
  "succeeded_fields outcomes =
     concat (map (\<lambda>(field, message, r). case r of None \<Rightarrow> [field] | Some e \<Rightarrow> []) outcomes)"

definition logged_failures :: "(string \<times> string \<times> exn option) list \<Rightarrow> (string \<times> exn) list" where
  "logged_failures outcomes =
     concat (map (\<lambda>(field, message, r). case r of None \<Rightarrow> [] | Some e \<Rightarrow> [(message, e)])
       outcomes)"

text \<open>A request that creates a contact with three emails, a phone and a url.\<close>

definition sample_create :: create_args where
  "sample_create =
     \<lparr>ca_name = ''Ada Lovelace'', ca_organization = Some ''Analytical Engines'',
      ca_job_title = None,
      ca_emails = Some [''ada@example.com'', ''countess@example.org'', ''a@b.c''],
      ca_phones = Some [''+44 20 7946 0000''],
      ca_urls = Some [\<lparr>url_label = ''LinkedIn'', url_value = ''https://example.com/ada''\<rparr>],
      ca_note = None\<rparr>"

text \<open>A request that sets all seven fields of the sample contact.\<close>

definition sample_full_update :: update_args where
  "sample_full_update =
     \<lparr>ua_identifier = ''Ada Lovelace'', ua_name = Some ''Ada King'',
      ua_organization = Some ''X'', ua_job_title = Some ''Countess'',
      ua_emails = Some [''ada@example.com'', ''countess@example.org'', ''a@b.c''],
      ua_phones = Some [''+44 20 7946 0000''],
      ua_urls = Some [\<lparr>url_label = ''LinkedIn'', url_value = ''https://example.com/ada''\<rparr>],
      ua_note = Some ''hi''\<rparr>"

text \<open>A request that sets the note of the sample contact and nothing else.\<close>

definition sample_note_update :: update_args where
  "sample_note_update =
     \<lparr>ua_identifier = ''Ada Lovelace'', ua_name = None, ua_organization = None,
      ua_job_title = None, ua_emails = None, ua_phones = None, ua_urls = None,
      ua_note = Some ''hi''\<rparr>"

text \<open>
  The label of the specification for the entry at position \<open>i\<close> of an email or phone list:
  \<open>home\<close>, \<open>work\<close>, then the kind followed by the position counted from one.
\<close>

definition position_label :: "string \<Rightarrow> nat \<Rightarrow> string" where
  "position_label kind i =
     (if i = 0 then ''home'' else if i = 1 then ''work'' else kind @ nat_to_string (i + 1))"

text \<open>
  The scripts that a \<open>try\<close> block hands to the interpreter: its scripts up to and
  including the first one that throws. \<open>scripts_run\<close> collects them over the blocks of
  the table, skipping the blocks whose field the request leaves undefined.
\<close>

fun executed :: "'w osascript \<Rightarrow> 'w \<Rightarrow> string list \<Rightarrow> string list" where
  "executed osa w [] = []"
| "executed osa w (script # rest) =
     script # (case executeAppleScript osa w script of
                 (Inl e, w') \<Rightarrow> []
               | (Inr out, w') \<Rightarrow> executed osa w' rest)"

fun scripts_run ::
  "'w osascript \<Rightarrow> 'w \<Rightarrow> (string \<times> string \<times> string list option) list \<Rightarrow> string list" where
  "scripts_run osa w [] = []"
| "scripts_run osa w ((field, message, None) # blocks) = scripts_run osa w blocks"
| "scripts_run osa w ((field, message, Some scripts) # blocks) =
     executed osa w scripts @ scripts_run osa (snd (run_scripts osa w scripts)) blocks"

text \<open>A request that replaces the emails of the sample contact and nothing else.\<close>

definition sample_emails_update :: update_args where
  "sample_emails_update =
     \<lparr>ua_identifier = ''ABC-1'', ua_name = None, ua_organization = None,
      ua_job_title = None,
      ua_emails = Some [''ada@example.com'', ''countess@example.org'', ''a@b.c''],
      ua_phones = None, ua_urls = None, ua_note = None\<rparr>"

section \<open>The script escaper\<close>

lemma replace_global_concat:
  "replace_global c rep s = concat (map (\<lambda>x. if x = c then rep else [x]) s)"
  by (induction s) simp_all

lemma spec_substitute_replace_global:
  "spec_substitute (c, rep) s = replace_global c rep s"
  by (induction s) (simp_all add: spec_substitute_def)

lemma replace_global_append:
  "replace_global c rep (xs @ ys) = replace_global c rep xs @ replace_global c rep ys"
  by (induction xs) simp_all

lemma escapeForAppleScript_Nil: "escapeForAppleScript [] = []"
  by (simp add: escapeForAppleScript_def)

lemma escapeForAppleScript_Cons:
  "escapeForAppleScript (x # xs) = escape_char x @ escapeForAppleScript xs"
  by (simp add: escapeForAppleScript_def escape_char_def replace_global_append
      backslash_def dquote_def newline_def creturn_def tab_def)

lemma escapeForAppleScript_chars:
  "escapeForAppleScript s = concat (map escape_char s)"
  by (induction s) (simp_all add: escapeForAppleScript_Nil escapeForAppleScript_Cons)

lemma escapeForAppleScript_append:
  "escapeForAppleScript (xs @ ys) = escapeForAppleScript xs @ escapeForAppleScript ys"
  by (simp add: escapeForAppleScript_chars)

text \<open>
  Claim C1. For every string \<open>s\<close>, \<open>escapeForAppleScript s\<close> is the result of the five
  substitutions of the specification applied in its order (backslash, double quote,
  newline, carriage return, tab). The function has a value on every string: the empty
  string stays empty, a string of control characters only becomes the three two-character
  escapes, and a backslash is doubled.
\<close>

theorem escapeForAppleScript_is_spec_escape:
  "escapeForAppleScript s = spec_escape s
   \<and> escapeForAppleScript [] = []
   \<and> escapeForAppleScript [newline, creturn, tab] =
       [backslash, CHR ''n'', backslash, CHR ''r'', backslash, CHR ''t'']
   \<and> escapeForAppleScript [backslash] = [backslash, backslash]"
proof -
  have "escapeForAppleScript s = spec_escape s"
    by (simp add: escapeForAppleScript_def spec_escape_def spec_substitutions_def
        spec_substitute_replace_global)
  moreover have "escapeForAppleScript [newline, creturn, tab] =
       [backslash, CHR ''n'', backslash, CHR ''r'', backslash, CHR ''t'']"
    by (simp add: escapeForAppleScript_Cons escapeForAppleScript_Nil escape_char_def
        backslash_def dquote_def newline_def creturn_def tab_def)
  moreover have "escapeForAppleScript [backslash] = [backslash, backslash]"
    by (simp add: escapeForAppleScript_Cons escapeForAppleScript_Nil escape_char_def)
  ultimately show ?thesis
    by (simp add: escapeForAppleScript_Nil)
qed

section \<open>The url parser\<close>

lemma js_split_from_not_Nil: "js_split_from sep cur s \<noteq> []"
  by (induction sep cur s rule: js_split_from.induct) auto

lemma js_join_Cons: "rest \<noteq> [] \<Longrightarrow> js_join sep (x # rest) = x @ sep @ js_join sep rest"
  by (cases rest) simp_all

lemma js_join_split_from:
  "sep \<noteq> [] \<Longrightarrow> js_join sep (js_split_from sep cur s) = cur @ s"
proof (induction sep cur s rule: js_split_from.induct)
  case (1 sep cur)
  then show ?case by simp
next
  case (2 sep cur c cs)
  show ?case
  proof (cases "take (length sep) (c # cs) = sep")
    case True
    have "js_join sep (js_split_from sep cur (c # cs)) =
          cur @ sep @ js_join sep (js_split_from sep [] (drop (length sep) (c # cs)))"
      using True "2.prems" by (simp add: js_join_Cons js_split_from_not_Nil)
    also have "\<dots> = cur @ take (length sep) (c # cs) @ drop (length sep) (c # cs)"
      using True "2.prems" "2.IH"(1) by simp
    finally show ?thesis by simp
  next
    case False
    then show ?thesis using "2.prems" "2.IH"(2) by simp
  qed
qed

lemma js_split_from_char:
  "js_split_from [c] cur s =
     (cur @ takeWhile (\<lambda>x. x \<noteq> c) s) #
     (if c \<in> set s then js_split_from [c] [] (drop 1 (dropWhile (\<lambda>x. x \<noteq> c) s)) else [])"
  by (induction s arbitrary: cur) auto

lemma takeWhile_sep_dropWhile:
  "c \<in> set s \<Longrightarrow> takeWhile (\<lambda>x. x \<noteq> c) s @ c # drop 1 (dropWhile (\<lambda>x. x \<noteq> c) s) = s"
  by (induction s) auto

lemma parse_url_item_first_colon:
  "parse_url_item item =
     \<lparr>url_label = takeWhile (\<lambda>x. x \<noteq> CHR '':'') item,
      url_value = drop 1 (dropWhile (\<lambda>x. x \<noteq> CHR '':'') item)\<rparr>"
proof (cases "CHR '':'' \<in> set item")
  case True
  then show ?thesis
    by (simp add: parse_url_item_def js_split_def js_split_from_char[of "CHR '':''" "[]" item]
        js_join_split_from)
next
  case False
  then have "dropWhile (\<lambda>x. x \<noteq> CHR '':'') item = []"
    by (induction item) auto
  with False show ?thesis
    by (simp add: parse_url_item_def js_split_def js_split_from_char[of "CHR '':''" "[]" item]
        del: dropWhile_eq_Nil_conv)
qed

text \<open>
  Claim C10. The url parser of \<open>getContact\<close> splits an entry at its first colon only: the
  label is the text before the first colon, the value is everything after it, later
  colons included. For an entry with at least one colon, label, colon and value put
  together give the entry back.
\<close>

theorem url_entry_split_at_first_colon:
  "parse_url_item item =
     \<lparr>url_label = takeWhile (\<lambda>x. x \<noteq> CHR '':'') item,
      url_value = drop 1 (dropWhile (\<lambda>x. x \<noteq> CHR '':'') item)\<rparr>
   \<and> (CHR '':'' \<in> set item \<longrightarrow>
        url_label (parse_url_item item) @ '':'' @ url_value (parse_url_item item) = item)"
  using takeWhile_sep_dropWhile [of "CHR '':''" item]
  by (simp add: parse_url_item_first_colon)

theorem url_entry_split_at_first_colon_witness:
  "CHR '':'' \<in> set ''home:https://x.y:80/''
   \<and> parse_url_item ''home:https://x.y:80/'' =
       \<lparr>url_label = ''home'', url_value = ''https://x.y:80/''\<rparr>
   \<and> url_label (parse_url_item ''home:https://x.y:80/'') @ '':'' @
       url_value (parse_url_item ''home:https://x.y:80/'') = ''home:https://x.y:80/''"
  using url_entry_split_at_first_colon [of "''home:https://x.y:80/''"] by simp

section \<open>Search on an empty match set, and the row limits\<close>

lemma executeAppleScript_logging:
  "executeAppleScript (logging osa) (w, tr) script =
     (fst (executeAppleScript osa w script), (snd (executeAppleScript osa w script), tr @ [script]))"
  by (simp add: executeAppleScript_def logging_def split: prod.splits sum.splits)

lemma search_list_empty_output:
  "executeAppleScript osa w
     (search_list_script exponent_form (case l of None \<Rightarrow> 20 | Some n \<Rightarrow> n)) = (Inr [], w')
   \<Longrightarrow> searchContacts exponent_form osa w \<lparr>sa_query = None, sa_limit = l\<rparr> =
         (Inr \<lparr>sr_success = True, sr_count = 0, sr_contacts = []\<rparr>, w')"
  by (simp add: searchContacts_def names_to_contacts_def)

lemma search_query_empty_output:
  "query \<noteq> [] \<Longrightarrow> 0 < limit \<Longrightarrow>
   executeAppleScript osa w (search_query_script query) = (Inr [], w')
   \<Longrightarrow> searchContacts exponent_form osa w \<lparr>sa_query = Some query, sa_limit = Some limit\<rparr> =
         (Inr \<lparr>sr_success = True, sr_count = 1,
                sr_contacts = [\<lparr>cs_name = [], cs_organization = []\<rparr>]\<rparr>, w')"
  by (simp add: searchContacts_def names_to_contacts_def js_split_def js_slice0_def
      js_trim_def)

text \<open>
  Claim C6 says that a search with an empty match set returns count 0 and no contacts.
  With a query, the output of the interpreter is split without a test for the empty
  string, and the empty string splits into one empty name: on a store that prints
  nothing for the query \<open>NoSuchOrg123\<close> the response has count 1 and one contact with
  an empty name.
\<close>

theorem search_query_no_match_counts_one:
  "searchContacts exponent_form empty_store ()
     \<lparr>sa_query = Some ''NoSuchOrg123'', sa_limit = None\<rparr> =
     (Inr \<lparr>sr_success = True, sr_count = 1,
            sr_contacts = [\<lparr>cs_name = [], cs_organization = []\<rparr>]\<rparr>, ())"
  by code_simp



section \<open>Fetch\<close>

lemma starts_with_prefix: "starts_with needle (needle @ rest)"
  by (induction needle) simp_all

lemma js_includes_prefix: "js_includes needle (needle @ rest)"
proof (cases "needle @ rest")
  case Nil
  then show ?thesis by simp
next
  case (Cons a list)
  have "starts_with needle (needle @ rest)" by (rule starts_with_prefix)
  then show ?thesis unfolding Cons by simp
qed

lemma js_includes_append: "js_includes needle rest \<Longrightarrow> js_includes needle (pre @ rest)"
  by (induction pre) simp_all

text \<open>
  Claim C2 says that every user-supplied string reaches a script only through
  \<open>escapeForAppleScript\<close>. The create and update scripts do that; the search script embeds
  the query as it is, and the fetch script embeds the identifier as it is. For the query
  and identifier \<open>a"b\<close> the scripts contain the raw text, whose double quote ends the
  literal, and not the escaped text.
\<close>

theorem query_and_identifier_embedded_raw:
  \<open>search_query_script ''a"b'' =
     ''tell application "Contacts" to return name of people whose name contains "a"b"''
   \<and> js_includes ''set targetPerson to person id "a"b"'' (get_contact_script ''a"b'')
   \<and> js_includes ''set targetPerson to person "a"b"'' (get_contact_script ''a"b'')
   \<and> escapeForAppleScript ''a"b'' = [CHR ''a'', backslash, dquote, CHR ''b'']
   \<and> \<not> js_includes (escapeForAppleScript ''a"b'') (search_query_script ''a"b'')
   \<and> \<not> js_includes (escapeForAppleScript ''a"b'') (get_contact_script ''a"b'')\<close>
  by code_simp

text \<open>
  What \<open>getContact\<close> makes of the scalar script: the sentinel as output is the value
  \<open>{success: false, message: "Contact not found"}\<close>, and a failure of the interpreter
  is a thrown \<open>Get contact failed\<close> error.
\<close>

lemma getContact_sentinel_or_failure:
  \<open>js_includes ''      return "Contact not found"\<newline>'' (get_contact_script identifier)
   \<and> (executeAppleScript osa w (get_contact_script identifier) =
         (Inr ''Contact not found'', w')
        \<longrightarrow> getContact osa w identifier =
             (Inr \<lparr>g_success = False, g_message = Some ''Contact not found'',
                    g_contact = None\<rparr>, w'))
   \<and> (executeAppleScript osa w (get_contact_script identifier) = (Inl e, w')
        \<longrightarrow> getContact osa w identifier =
             (Inl (Error (''Get contact failed: '' @ error_to_string e)), w'))\<close>
proof -
  have \<open>js_includes ''      return "Contact not found"\<newline>'' (get_contact_script identifier)\<close>
    unfolding get_contact_script_def
    by (intro js_includes_append[of _ _ "''tell application \"Contacts\"\<newline>''"]) (fast intro: js_includes_append js_includes_prefix)
  then show ?thesis
    by (simp add: getContact_def)
qed

text \<open>
  Claim C4 says that a fetch of an identifier that resolves neither by id nor by name
  returns \<open>{success: false, message: "Contact not found"}\<close> and never throws. The
  identifier is put between the quotes of the script as it is, so for the identifier
  \<open>a"b\<close> the script holds \<open>person id "a"b"\<close>, which is not a string literal. On a store
  without contacts whose interpreter refuses such a script, the fetch of \<open>a"b\<close> throws
  \<open>Get contact failed\<close>, while the fetch of \<open>nonexistent-id\<close> returns the not-found
  value.
\<close>

theorem fetch_of_quoted_identifier_throws:
  \<open>js_includes ''set targetPerson to person id "a"b"'' (get_contact_script ''a"b'')
   \<and> bad_literal False (get_contact_script ''a"b'')
   \<and> getContact checking_store () ''a"b'' =
       (Inl (Error ''Get contact failed: Error: AppleScript execution failed: Error: Command failed: osascript''), ())
   \<and> \<not> bad_literal False (get_contact_script ''nonexistent-id'')
   \<and> getContact checking_store () ''nonexistent-id'' =
       (Inr \<lparr>g_success = False, g_message = Some ''Contact not found'',
              g_contact = None\<rparr>, ())\<close>
  by code_simp

lemma fetch_list_failure:
  "executeAppleScript osa w script = (r, w') \<Longrightarrow>
   snd (fetch_list osa w script) = w' \<and> (isl r \<longrightarrow> fst (fetch_list osa w script) = [])"
  by (cases r) (simp_all add: fetch_list_def)

text \<open>
  Claim C9. When the scalar script of \<open>getContact\<close> succeeds with anything but the
  sentinel, the fetch returns \<open>success: true\<close> with a contact whose emails, phones and
  urls are lists, whatever the three list scripts do: a list script that throws leaves
  the empty list in its field and the exception goes no further.
\<close>

theorem fetch_survives_list_script_failures:
  assumes "executeAppleScript osa w (get_contact_script identifier) = (Inr result, w1)"
    and "result \<noteq> ''Contact not found''"
    and "executeAppleScript osa w1
           (email_script (part_or_empty (js_split ''|'' result) 0)) = (re, w2)"
    and "executeAppleScript osa w2
           (phone_script (part_or_empty (js_split ''|'' result) 0)) = (rp, w3)"
    and "executeAppleScript osa w3
           (url_script (part_or_empty (js_split ''|'' result) 0)) = (ru, w4)"
  shows "\<exists>c. getContact osa w identifier =
               (Inr \<lparr>g_success = True, g_message = None, g_contact = Some c\<rparr>, w4)
             \<and> (isl re \<longrightarrow> c_emails c = [])
             \<and> (isl rp \<longrightarrow> c_phones c = [])
             \<and> (isl ru \<longrightarrow> c_urls c = [])"
proof -
  let ?cid = "part_or_empty (js_split ''|'' result) 0"
  obtain emails where e: "fetch_list osa w1 (email_script ?cid) = (emails, w2)"
    and e0: "isl re \<longrightarrow> emails = []"
    using fetch_list_failure [OF assms(3)] by (cases "fetch_list osa w1 (email_script ?cid)") auto
  obtain phones where p: "fetch_list osa w2 (phone_script ?cid) = (phones, w3)"
    and p0: "isl rp \<longrightarrow> phones = []"
    using fetch_list_failure [OF assms(4)] by (cases "fetch_list osa w2 (phone_script ?cid)") auto
  obtain urls where u: "fetch_list osa w3 (url_script ?cid) = (urls, w4)"
    and u0: "isl ru \<longrightarrow> urls = []"
    using fetch_list_failure [OF assms(5)] by (cases "fetch_list osa w3 (url_script ?cid)") auto
  have "getContact osa w identifier =
          (Inr \<lparr>g_success = True, g_message = None,
                 g_contact = Some
                   \<lparr>c_id = ?cid,
                    c_name = part_or_empty (js_split ''|'' result) 1,
                    c_organization = part_or_empty (js_split ''|'' result) 2,
                    c_job_title = part_or_empty (js_split ''|'' result) 3,
                    c_note = part_or_empty (js_split ''|'' result) 4,
                    c_emails = emails, c_phones = phones,
                    c_urls = map parse_url_item urls\<rparr>\<rparr>, w4)"
    using assms(1,2) e p u by (simp add: getContact_def Let_def)
  with e0 p0 u0 show ?thesis by simp
qed

theorem fetch_survives_list_script_failures_witness:
  \<open>executeAppleScript sample_store () (get_contact_script ''Ada Lovelace'') =
     (Inr ''ABC-1|Ada Lovelace|Analytical Engines||'', ())
   \<and> executeAppleScript sample_store () (phone_script ''ABC-1'') =
     (Inl (Error ''AppleScript execution failed: Error: Command failed: osascript''), ())
   \<and> (\<exists>c. getContact sample_store () ''Ada Lovelace'' =
             (Inr \<lparr>g_success = True, g_message = None, g_contact = Some c\<rparr>, ())
           \<and> c_phones c = [])\<close>
proof -
  have cid: "part_or_empty (js_split ''|'' ''ABC-1|Ada Lovelace|Analytical Engines||'') 0 = ''ABC-1''"
    by code_simp
  have h1: \<open>executeAppleScript sample_store () (get_contact_script ''Ada Lovelace'') =
     (Inr ''ABC-1|Ada Lovelace|Analytical Engines||'', ())\<close>
    by code_simp
  have h2: "''ABC-1|Ada Lovelace|Analytical Engines||'' \<noteq> ''Contact not found''"
    by simp
  have h3: "executeAppleScript sample_store ()
      (email_script (part_or_empty (js_split ''|'' ''ABC-1|Ada Lovelace|Analytical Engines||'') 0)) =
     (Inr ''ada@example.com'', ())"
    unfolding cid by code_simp
  have h4: "executeAppleScript sample_store ()
      (phone_script (part_or_empty (js_split ''|'' ''ABC-1|Ada Lovelace|Analytical Engines||'') 0)) =
     (Inl (Error ''AppleScript execution failed: Error: Command failed: osascript''), ())"
    unfolding cid by code_simp
  have h5: "executeAppleScript sample_store ()
      (url_script (part_or_empty (js_split ''|'' ''ABC-1|Ada Lovelace|Analytical Engines||'') 0)) =
     (Inr [], ())"
    unfolding cid by code_simp
  show ?thesis
    using fetch_survives_list_script_failures [OF h1 h2 h3 h4 h5] h1 h4 [unfolded cid]
    by auto
qed

section \<open>Update: per-field bookkeeping\<close>

lemma update_fields_foldl:
  "update_fields osa contactId updates st =
     foldl (\<lambda>st (field, message, scripts). try_update osa field message scripts st) st
       (update_blocks contactId updates)"
proof -
  have n: "name_scripts contactId updates =
      (case ua_name updates of None \<Rightarrow> None
       | Some name \<Rightarrow> Some [update_name_script contactId name])"
    by (simp add: name_scripts_def split: option.splits)
  have or: "organization_scripts contactId updates =
      (case ua_organization updates of None \<Rightarrow> None
       | Some organization \<Rightarrow> Some [update_organization_script contactId organization])"
    by (simp add: organization_scripts_def split: option.splits)
  have j: "job_title_scripts contactId updates =
      (case ua_job_title updates of None \<Rightarrow> None
       | Some job_title \<Rightarrow> Some [update_job_title_script contactId job_title])"
    by (simp add: job_title_scripts_def split: option.splits)
  have no: "note_scripts contactId updates =
      (case ua_note updates of None \<Rightarrow> None
       | Some note \<Rightarrow> Some [update_note_script contactId note])"
    by (simp add: note_scripts_def split: option.splits)
  have u: "urls_scripts contactId updates =
      (case ua_urls updates of None \<Rightarrow> None
       | Some urls \<Rightarrow> Some (clear_url_script contactId #
           (if urls = [] then [] else [add_url_script contactId urls])))"
    by (simp add: urls_scripts_def split: option.splits)
  have e: "emails_scripts contactId updates =
      (case ua_emails updates of None \<Rightarrow> None
       | Some emails \<Rightarrow> Some (clear_email_script contactId #
           (if emails = [] then [] else [add_email_script contactId emails])))"
    by (simp add: emails_scripts_def split: option.splits)
  have p: "phones_scripts contactId updates =
      (case ua_phones updates of None \<Rightarrow> None
       | Some phones \<Rightarrow> Some (clear_phone_script contactId #
           (if phones = [] then [] else [add_phone_script contactId phones])))"
    by (simp add: phones_scripts_def split: option.splits)
  show ?thesis
    unfolding update_fields_def update_blocks_def n or j no u e p by simp
qed

lemma foldl_try_update_outcomes:
  "us_updatedFields
     (foldl (\<lambda>st (field, message, scripts). try_update osa field message scripts st) st blocks) =
     us_updatedFields st @ succeeded_fields (block_outcomes osa (us_world st) blocks)
   \<and> us_console
     (foldl (\<lambda>st (field, message, scripts). try_update osa field message scripts st) st blocks) =
     us_console st @ logged_failures (block_outcomes osa (us_world st) blocks)"
proof (induction blocks arbitrary: st)
  case Nil
  then show ?case by (simp add: succeeded_fields_def logged_failures_def)
next
  case (Cons b blocks)
  obtain field message scripts where b: "b = (field, message, scripts)"
    by (cases b) auto
  show ?case
  proof (cases scripts)
    case None
    then show ?thesis using Cons.IH [of st] b by (simp add: try_update_def)
  next
    case (Some ss)
    obtain r w' where run: "run_scripts osa (us_world st) ss = (r, w')"
      by (cases "run_scripts osa (us_world st) ss") auto
    show ?thesis
      using Cons.IH [of "try_update osa field message (Some ss) st"] b Some run
      by (cases r) (simp_all add: try_update_def succeeded_fields_def logged_failures_def)
  qed
qed

lemma succeeded_fields_sound:
  "f \<in> set (succeeded_fields (block_outcomes osa w blocks)) \<Longrightarrow>
   \<exists>m ss w'. (f, m, Some ss) \<in> set blocks \<and> fst (run_scripts osa w' ss) = None"
proof (induction osa w blocks rule: block_outcomes.induct)
  case (1 osa w)
  then show ?case by (simp add: succeeded_fields_def)
next
  case (2 osa w field message blocks)
  then show ?case by auto
next
  case (3 osa w field message scripts blocks)
  show ?case
  proof (cases "f = field \<and> fst (run_scripts osa w scripts) = None")
    case True
    then show ?thesis by auto
  next
    case False
    then have "f \<in> set (succeeded_fields
                 (block_outcomes osa (snd (run_scripts osa w scripts)) blocks))"
      using "3.prems" by (auto simp: succeeded_fields_def split: option.splits)
    from "3.IH" [OF this] show ?thesis by auto
  qed
qed

lemma succeeded_fields_complete:
  "(f, m, Some ss) \<in> set blocks \<Longrightarrow> (\<And>w. fst (run_scripts osa w ss) = None) \<Longrightarrow>
   f \<in> set (succeeded_fields (block_outcomes osa w blocks))"
proof (induction osa w blocks rule: block_outcomes.induct)
  case (1 osa w)
  then show ?case by simp
next
  case (2 osa w field message blocks)
  then show ?case by auto
next
  case (3 osa w field message scripts blocks)
  show ?case
  proof (cases "(f, m, Some ss) = (field, message, Some scripts)")
    case True
    then show ?thesis using "3.prems"(2) [of w] by (simp add: succeeded_fields_def)
  next
    case False
    then have "(f, m, Some ss) \<in> set blocks" using "3.prems"(1) by auto
    from "3.IH" [OF this "3.prems"(2)] show ?thesis
      by (simp add: succeeded_fields_def)
  qed
qed

lemma run_scripts_single:
  "fst (run_scripts osa w [script]) = None \<longleftrightarrow> \<not> isl (fst (executeAppleScript osa w script))"
  by (cases "executeAppleScript osa w script"; cases "fst (executeAppleScript osa w script)")
     auto

lemma run_scripts_clear_add:
  "fst (run_scripts osa w (clear # (if xs = [] then [] else [add]))) = None \<longleftrightarrow>
     \<not> isl (fst (executeAppleScript osa w clear)) \<and>
     (xs = [] \<or> \<not> isl (fst (executeAppleScript osa (snd (executeAppleScript osa w clear)) add)))"
proof (cases "executeAppleScript osa w clear")
  case (Pair r w')
  show ?thesis
  proof (cases r)
    case (Inl e)
    with Pair show ?thesis by simp
  next
    case (Inr out)
    with Pair show ?thesis using run_scripts_single [of osa w' add] by simp
  qed
qed

text \<open>
  A field of the table is reported exactly through its own block: a scalar field through
  its one script, a collection through its clear script and its add script.
\<close>

lemma scalar_field_reported:
  assumes only: "\<And>m ss. (F, m, Some ss) \<in> set blocks \<Longrightarrow> \<exists>v. x = Some v \<and> ss = [script v]"
    and there: "\<And>v. x = Some v \<Longrightarrow> \<exists>m. (F, m, Some [script v]) \<in> set blocks"
  shows "(x = None \<longrightarrow> F \<notin> set (succeeded_fields (block_outcomes osa w blocks)))
      \<and> (\<forall>v. x = Some v \<longrightarrow>
             (\<forall>w'. isl (fst (executeAppleScript osa w' (script v)))) \<longrightarrow>
             F \<notin> set (succeeded_fields (block_outcomes osa w blocks)))
      \<and> (\<forall>v. x = Some v \<longrightarrow>
             (\<forall>w'. \<not> isl (fst (executeAppleScript osa w' (script v)))) \<longrightarrow>
             F \<in> set (succeeded_fields (block_outcomes osa w blocks)))"
proof (intro conjI allI impI)
  assume "x = None"
  show "F \<notin> set (succeeded_fields (block_outcomes osa w blocks))"
  proof
    assume "F \<in> set (succeeded_fields (block_outcomes osa w blocks))"
    from succeeded_fields_sound [OF this] obtain m ss where "(F, m, Some ss) \<in> set blocks"
      by blast
    from only [OF this] \<open>x = None\<close> show False by simp
  qed
next
  fix v
  assume x: "x = Some v"
    and fails: "\<forall>w'. isl (fst (executeAppleScript osa w' (script v)))"
  show "F \<notin> set (succeeded_fields (block_outcomes osa w blocks))"
  proof
    assume "F \<in> set (succeeded_fields (block_outcomes osa w blocks))"
    from succeeded_fields_sound [OF this] obtain m ss w'
      where b: "(F, m, Some ss) \<in> set blocks" and ok: "fst (run_scripts osa w' ss) = None"
      by blast
    from only [OF b] x have "ss = [script v]" by simp
    with ok have "fst (run_scripts osa w' [script v]) = None" by simp
    then have "\<not> isl (fst (executeAppleScript osa w' (script v)))"
      by (rule iffD1 [OF run_scripts_single])
    with fails show False by blast
  qed
next
  fix v
  assume x: "x = Some v"
    and ok: "\<forall>w'. \<not> isl (fst (executeAppleScript osa w' (script v)))"
  from there [OF x] obtain m where b: "(F, m, Some [script v]) \<in> set blocks" by blast
  have "fst (run_scripts osa w' [script v]) = None" for w'
    by (rule iffD2 [OF run_scripts_single]) (use ok in blast)
  from succeeded_fields_complete [OF b this]
  show "F \<in> set (succeeded_fields (block_outcomes osa w blocks))" .
qed

lemma collection_field_reported:
  assumes only: "\<And>m ss. (F, m, Some ss) \<in> set blocks \<Longrightarrow>
             \<exists>xs. x = Some xs \<and> ss = clear # (if xs = [] then [] else [add xs])"
    and there: "\<And>xs. x = Some xs \<Longrightarrow>
             \<exists>m. (F, m, Some (clear # (if xs = [] then [] else [add xs]))) \<in> set blocks"
  shows "(x = None \<longrightarrow> F \<notin> set (succeeded_fields (block_outcomes osa w blocks)))
      \<and> (\<forall>xs. x = Some xs \<longrightarrow>
             (\<forall>w'. isl (fst (executeAppleScript osa w' clear))) \<longrightarrow>
             F \<notin> set (succeeded_fields (block_outcomes osa w blocks)))
      \<and> (\<forall>xs. x = Some xs \<longrightarrow> xs \<noteq> [] \<longrightarrow>
             (\<forall>w'. isl (fst (executeAppleScript osa w' (add xs)))) \<longrightarrow>
             F \<notin> set (succeeded_fields (block_outcomes osa w blocks)))
      \<and> (\<forall>xs. x = Some xs \<longrightarrow>
             (\<forall>w'. \<not> isl (fst (executeAppleScript osa w' clear))) \<longrightarrow>
             (xs = [] \<or> (\<forall>w'. \<not> isl (fst (executeAppleScript osa w' (add xs))))) \<longrightarrow>
             F \<in> set (succeeded_fields (block_outcomes osa w blocks)))"
proof (intro conjI allI impI)
  assume "x = None"
  show "F \<notin> set (succeeded_fields (block_outcomes osa w blocks))"
  proof
    assume "F \<in> set (succeeded_fields (block_outcomes osa w blocks))"
    from succeeded_fields_sound [OF this] obtain m ss where "(F, m, Some ss) \<in> set blocks"
      by blast
    from only [OF this] \<open>x = None\<close> show False by simp
  qed
next
  fix xs
  assume x: "x = Some xs"
    and fails: "\<forall>w'. isl (fst (executeAppleScript osa w' clear))"
  show "F \<notin> set (succeeded_fields (block_outcomes osa w blocks))"
  proof
    assume "F \<in> set (succeeded_fields (block_outcomes osa w blocks))"
    from succeeded_fields_sound [OF this] obtain m ss w'
      where b: "(F, m, Some ss) \<in> set blocks" and ok: "fst (run_scripts osa w' ss) = None"
      by blast
    from only [OF b] x have "ss = clear # (if xs = [] then [] else [add xs])" by simp
    with ok have "fst (run_scripts osa w' (clear # (if xs = [] then [] else [add xs]))) = None"
      by simp
    then have "\<not> isl (fst (executeAppleScript osa w' clear))"
      unfolding run_scripts_clear_add by (rule conjunct1)
    with fails show False by blast
  qed
next
  fix xs
  assume x: "x = Some xs" and ne: "xs \<noteq> []"
    and fails: "\<forall>w'. isl (fst (executeAppleScript osa w' (add xs)))"
  show "F \<notin> set (succeeded_fields (block_outcomes osa w blocks))"
  proof
    assume "F \<in> set (succeeded_fields (block_outcomes osa w blocks))"
    from succeeded_fields_sound [OF this] obtain m ss w'
      where b: "(F, m, Some ss) \<in> set blocks" and ok: "fst (run_scripts osa w' ss) = None"
      by blast
    from only [OF b] x have "ss = clear # (if xs = [] then [] else [add xs])" by simp
    with ok have "fst (run_scripts osa w' (clear # (if xs = [] then [] else [add xs]))) = None"
      by simp
    then have "xs = [] \<or> \<not> isl (fst (executeAppleScript osa
                 (snd (executeAppleScript osa w' clear)) (add xs)))"
      unfolding run_scripts_clear_add by (rule conjunct2)
    with ne fails show False by blast
  qed
next
  fix xs
  assume x: "x = Some xs"
    and c: "\<forall>w'. \<not> isl (fst (executeAppleScript osa w' clear))"
    and a: "xs = [] \<or> (\<forall>w'. \<not> isl (fst (executeAppleScript osa w' (add xs))))"
  from there [OF x] obtain m
    where b: "(F, m, Some (clear # (if xs = [] then [] else [add xs]))) \<in> set blocks"
    by blast
  have "fst (run_scripts osa w' (clear # (if xs = [] then [] else [add xs]))) = None" for w'
    unfolding run_scripts_clear_add using c a by blast
  from succeeded_fields_complete [OF b this]
  show "F \<in> set (succeeded_fields (block_outcomes osa w blocks))" .
qed

lemma name_block:
  "(''name'', m, Some ss) \<in> set (update_blocks contactId updates) \<Longrightarrow>
   \<exists>v. ua_name updates = Some v \<and> ss = [update_name_script contactId v]"
  "ua_name updates = Some v \<Longrightarrow>
   \<exists>m. (''name'', m, Some [update_name_script contactId v]) \<in> set (update_blocks contactId updates)"
  by (auto simp: update_blocks_def split: option.splits)

lemma organization_block:
  "(''organization'', m, Some ss) \<in> set (update_blocks contactId updates) \<Longrightarrow>
   \<exists>v. ua_organization updates = Some v \<and> ss = [update_organization_script contactId v]"
  "ua_organization updates = Some v \<Longrightarrow>
   \<exists>m. (''organization'', m, Some [update_organization_script contactId v]) \<in> set (update_blocks contactId updates)"
  by (auto simp: update_blocks_def split: option.splits)

lemma job_title_block:
  "(''job_title'', m, Some ss) \<in> set (update_blocks contactId updates) \<Longrightarrow>
   \<exists>v. ua_job_title updates = Some v \<and> ss = [update_job_title_script contactId v]"
  "ua_job_title updates = Some v \<Longrightarrow>
   \<exists>m. (''job_title'', m, Some [update_job_title_script contactId v]) \<in> set (update_blocks contactId updates)"
  by (auto simp: update_blocks_def split: option.splits)

lemma note_block:
  "(''note'', m, Some ss) \<in> set (update_blocks contactId updates) \<Longrightarrow>
   \<exists>v. ua_note updates = Some v \<and> ss = [update_note_script contactId v]"
  "ua_note updates = Some v \<Longrightarrow>
   \<exists>m. (''note'', m, Some [update_note_script contactId v]) \<in> set (update_blocks contactId updates)"
  by (auto simp: update_blocks_def split: option.splits)

lemma urls_block:
  "(''urls'', m, Some ss) \<in> set (update_blocks contactId updates) \<Longrightarrow>
   \<exists>xs. ua_urls updates = Some xs \<and>
     ss = clear_url_script contactId # (if xs = [] then [] else [add_url_script contactId xs])"
  "ua_urls updates = Some xs \<Longrightarrow>
   \<exists>m. (''urls'', m, Some (clear_url_script contactId #
          (if xs = [] then [] else [add_url_script contactId xs]))) \<in> set (update_blocks contactId updates)"
  by (auto simp: update_blocks_def split: option.splits)

lemma emails_block:
  "(''emails'', m, Some ss) \<in> set (update_blocks contactId updates) \<Longrightarrow>
   \<exists>xs. ua_emails updates = Some xs \<and>
     ss = clear_email_script contactId # (if xs = [] then [] else [add_email_script contactId xs])"
  "ua_emails updates = Some xs \<Longrightarrow>
   \<exists>m. (''emails'', m, Some (clear_email_script contactId #
          (if xs = [] then [] else [add_email_script contactId xs]))) \<in> set (update_blocks contactId updates)"
  by (auto simp: update_blocks_def split: option.splits)

lemma phones_block:
  "(''phones'', m, Some ss) \<in> set (update_blocks contactId updates) \<Longrightarrow>
   \<exists>xs. ua_phones updates = Some xs \<and>
     ss = clear_phone_script contactId # (if xs = [] then [] else [add_phone_script contactId xs])"
  "ua_phones updates = Some xs \<Longrightarrow>
   \<exists>m. (''phones'', m, Some (clear_phone_script contactId #
          (if xs = [] then [] else [add_phone_script contactId xs]))) \<in> set (update_blocks contactId updates)"
  by (auto simp: update_blocks_def split: option.splits)

text \<open>
  Claim C3. When the identifier resolves, \<open>updateContact\<close> returns \<open>success: true\<close> with
  the list \<open>updatedFields\<close>, and never throws. Each field that the request defines runs its
  own scripts in the state the field before it left; its name is in \<open>updatedFields\<close>
  exactly when its scripts succeeded, and a field whose script threw is logged with
  \<open>console.error\<close> instead. For each of the seven fields: a field that the request leaves
  undefined is not in the list; a field whose script fails is not in the list, whatever
  the other fields did; a field whose scripts succeed is in the list, whatever the other
  fields did. The list may be empty.
\<close>

theorem update_reports_fields_that_succeeded:
  assumes "getContact osa w (ua_identifier args) =
             (Inr \<lparr>g_success = True, g_message = None, g_contact = Some c\<rparr>, w1)"
  shows "\<exists>st. updateContact osa w args =
               (Inr \<lparr>ur_success = True,
                      ur_message = ''Updated contact: '' @ ua_identifier args,
                      ur_updated_fields = us_updatedFields st\<rparr>, st)
    \<and> us_updatedFields st =
        succeeded_fields (block_outcomes osa w1 (update_blocks (c_id c) args))
    \<and> us_console st =
        logged_failures (block_outcomes osa w1 (update_blocks (c_id c) args))
    \<and> ((ua_name args = None \<longrightarrow> ''name'' \<notin> set (us_updatedFields st))
      \<and> (\<forall>v. ua_name args = Some v \<longrightarrow>
             (\<forall>w'. isl (fst (executeAppleScript osa w' (update_name_script (c_id c) v)))) \<longrightarrow>
             ''name'' \<notin> set (us_updatedFields st))
      \<and> (\<forall>v. ua_name args = Some v \<longrightarrow>
             (\<forall>w'. \<not> isl (fst (executeAppleScript osa w' (update_name_script (c_id c) v)))) \<longrightarrow>
             ''name'' \<in> set (us_updatedFields st)))
    \<and> ((ua_organization args = None \<longrightarrow> ''organization'' \<notin> set (us_updatedFields st))
      \<and> (\<forall>v. ua_organization args = Some v \<longrightarrow>
             (\<forall>w'. isl (fst (executeAppleScript osa w' (update_organization_script (c_id c) v)))) \<longrightarrow>
             ''organization'' \<notin> set (us_updatedFields st))
      \<and> (\<forall>v. ua_organization args = Some v \<longrightarrow>
             (\<forall>w'. \<not> isl (fst (executeAppleScript osa w' (update_organization_script (c_id c) v)))) \<longrightarrow>
             ''organization'' \<in> set (us_updatedFields st)))
    \<and> ((ua_job_title args = None \<longrightarrow> ''job_title'' \<notin> set (us_updatedFields st))
      \<and> (\<forall>v. ua_job_title args = Some v \<longrightarrow>
             (\<forall>w'. isl (fst (executeAppleScript osa w' (update_job_title_script (c_id c) v)))) \<longrightarrow>
             ''job_title'' \<notin> set (us_updatedFields st))
      \<and> (\<forall>v. ua_job_title args = Some v \<longrightarrow>
             (\<forall>w'. \<not> isl (fst (executeAppleScript osa w' (update_job_title_script (c_id c) v)))) \<longrightarrow>
             ''job_title'' \<in> set (us_updatedFields st)))
    \<and> ((ua_note args = None \<longrightarrow> ''note'' \<notin> set (us_updatedFields st))
      \<and> (\<forall>v. ua_note args = Some v \<longrightarrow>
             (\<forall>w'. isl (fst (executeAppleScript osa w' (update_note_script (c_id c) v)))) \<longrightarrow>
             ''note'' \<notin> set (us_updatedFields st))
      \<and> (\<forall>v. ua_note args = Some v \<longrightarrow>
             (\<forall>w'. \<not> isl (fst (executeAppleScript osa w' (update_note_script (c_id c) v)))) \<longrightarrow>
             ''note'' \<in> set (us_updatedFields st)))
    \<and> ((ua_urls args = None \<longrightarrow> ''urls'' \<notin> set (us_updatedFields st))
      \<and> (\<forall>xs. ua_urls args = Some xs \<longrightarrow>
             (\<forall>w'. isl (fst (executeAppleScript osa w' (clear_url_script (c_id c))))) \<longrightarrow>
             ''urls'' \<notin> set (us_updatedFields st))
      \<and> (\<forall>xs. ua_urls args = Some xs \<longrightarrow> xs \<noteq> [] \<longrightarrow>
             (\<forall>w'. isl (fst (executeAppleScript osa w' (add_url_script (c_id c) xs)))) \<longrightarrow>
             ''urls'' \<notin> set (us_updatedFields st))
      \<and> (\<forall>xs. ua_urls args = Some xs \<longrightarrow>
             (\<forall>w'. \<not> isl (fst (executeAppleScript osa w' (clear_url_script (c_id c))))) \<longrightarrow>
             (xs = [] \<or> (\<forall>w'. \<not> isl (fst (executeAppleScript osa w' (add_url_script (c_id c) xs))))) \<longrightarrow>
             ''urls'' \<in> set (us_updatedFields st)))
    \<and> ((ua_emails args = None \<longrightarrow> ''emails'' \<notin> set (us_updatedFields st))
      \<and> (\<forall>xs. ua_emails args = Some xs \<longrightarrow>
             (\<forall>w'. isl (fst (executeAppleScript osa w' (clear_email_script (c_id c))))) \<longrightarrow>
             ''emails'' \<notin> set (us_updatedFields st))
      \<and> (\<forall>xs. ua_emails args = Some xs \<longrightarrow> xs \<noteq> [] \<longrightarrow>
             (\<forall>w'. isl (fst (executeAppleScript osa w' (add_email_script (c_id c) xs)))) \<longrightarrow>
             ''emails'' \<notin> set (us_updatedFields st))
      \<and> (\<forall>xs. ua_emails args = Some xs \<longrightarrow>
             (\<forall>w'. \<not> isl (fst (executeAppleScript osa w' (clear_email_script (c_id c))))) \<longrightarrow>
             (xs = [] \<or> (\<forall>w'. \<not> isl (fst (executeAppleScript osa w' (add_email_script (c_id c) xs))))) \<longrightarrow>
             ''emails'' \<in> set (us_updatedFields st)))
    \<and> ((ua_phones args = None \<longrightarrow> ''phones'' \<notin> set (us_updatedFields st))
      \<and> (\<forall>xs. ua_phones args = Some xs \<longrightarrow>
             (\<forall>w'. isl (fst (executeAppleScript osa w' (clear_phone_script (c_id c))))) \<longrightarrow>
             ''phones'' \<notin> set (us_updatedFields st))
      \<and> (\<forall>xs. ua_phones args = Some xs \<longrightarrow> xs \<noteq> [] \<longrightarrow>
             (\<forall>w'. isl (fst (executeAppleScript osa w' (add_phone_script (c_id c) xs)))) \<longrightarrow>
             ''phones'' \<notin> set (us_updatedFields st))
      \<and> (\<forall>xs. ua_phones args = Some xs \<longrightarrow>
             (\<forall>w'. \<not> isl (fst (executeAppleScript osa w' (clear_phone_script (c_id c))))) \<longrightarrow>
             (xs = [] \<or> (\<forall>w'. \<not> isl (fst (executeAppleScript osa w' (add_phone_script (c_id c) xs))))) \<longrightarrow>
             ''phones'' \<in> set (us_updatedFields st)))"
proof -
  let ?blocks = "update_blocks (c_id c) args"
  let ?st = "update_fields osa (c_id c) args
               \<lparr>us_world = w1, us_updatedFields = [], us_console = []\<rparr>"
  have res: "updateContact osa w args =
               (Inr \<lparr>ur_success = True,
                      ur_message = ''Updated contact: '' @ ua_identifier args,
                      ur_updated_fields = us_updatedFields ?st\<rparr>, ?st)"
    using assms by (simp add: updateContact_def Let_def)
  have fields: "us_updatedFields ?st = succeeded_fields (block_outcomes osa w1 ?blocks)"
    and console: "us_console ?st = logged_failures (block_outcomes osa w1 ?blocks)"
    using foldl_try_update_outcomes
      [of osa "\<lparr>us_world = w1, us_updatedFields = [], us_console = []\<rparr>" ?blocks]
    by (simp_all add: update_fields_foldl)
  show ?thesis
    apply (rule exI [of _ ?st])
    apply (rule conjI, rule res)
    apply (rule conjI, rule fields)
    apply (rule conjI, rule console)
    apply (unfold fields)
    apply (rule conjI, rule scalar_field_reported [OF name_block], assumption+)
    apply (rule conjI, rule scalar_field_reported [OF organization_block], assumption+)
    apply (rule conjI, rule scalar_field_reported [OF job_title_block], assumption+)
    apply (rule conjI, rule scalar_field_reported [OF note_block], assumption+)
    apply (rule conjI, rule collection_field_reported [OF urls_block], assumption+)
    apply (rule conjI, rule collection_field_reported [OF emails_block], assumption+)
    apply (rule collection_field_reported [OF phones_block], assumption+)
    done
qed

theorem update_reports_fields_that_succeeded_witness:
  "getContact sample_store () (ua_identifier sample_full_update) =
     (Inr \<lparr>g_success = True, g_message = None,
            g_contact = Some \<lparr>c_id = ''ABC-1'', c_name = ''Ada Lovelace'',
              c_organization = ''Analytical Engines'', c_job_title = [], c_note = [],
              c_emails = [''ada@example.com''], c_phones = [], c_urls = []\<rparr>\<rparr>, ())
   \<and> ua_note sample_full_update = Some ''hi''
   \<and> (\<forall>w'. isl (fst (executeAppleScript sample_store w' (update_note_script ''ABC-1'' ''hi''))))
   \<and> ua_organization sample_full_update = Some ''X''
   \<and> (\<forall>w'. \<not> isl (fst (executeAppleScript sample_store w'
                          (update_organization_script ''ABC-1'' ''X''))))
   \<and> ua_name sample_full_update = Some ''Ada King''
   \<and> (\<forall>w'. \<not> isl (fst (executeAppleScript sample_store w'
                          (update_name_script ''ABC-1'' ''Ada King''))))
   \<and> ua_phones sample_full_update = Some [''+44 20 7946 0000'']
   \<and> (\<forall>w'. \<not> isl (fst (executeAppleScript sample_store w' (clear_phone_script ''ABC-1''))))
   \<and> (\<forall>w'. \<not> isl (fst (executeAppleScript sample_store w'
                          (add_phone_script ''ABC-1'' [''+44 20 7946 0000'']))))
   \<and> (\<exists>st. updateContact sample_store () sample_full_update =
             (Inr \<lparr>ur_success = True, ur_message = ''Updated contact: Ada Lovelace'',
                    ur_updated_fields =
                      [''name'', ''organization'', ''job_title'', ''urls'', ''emails'',
                       ''phones'']\<rparr>, st)
           \<and> us_console st =
               [(''Failed to update note:'',
                 Error ''AppleScript execution failed: Error: Command failed: osascript'')]
           \<and> ''note'' \<notin> set (us_updatedFields st)
           \<and> ''organization'' \<in> set (us_updatedFields st)
           \<and> ''name'' \<in> set (us_updatedFields st)
           \<and> ''phones'' \<in> set (us_updatedFields st))
   \<and> ua_organization sample_note_update = None
   \<and> fst (updateContact sample_store () sample_note_update) =
       Inr \<lparr>ur_success = True, ur_message = ''Updated contact: Ada Lovelace'',
            ur_updated_fields = []\<rparr>"
proof -
  let ?c = "\<lparr>c_id = ''ABC-1'', c_name = ''Ada Lovelace'',
              c_organization = ''Analytical Engines'', c_job_title = [], c_note = [],
              c_emails = [''ada@example.com''], c_phones = [], c_urls = []\<rparr>"
  have h: "getContact sample_store () (ua_identifier sample_full_update) =
     (Inr \<lparr>g_success = True, g_message = None, g_contact = Some ?c\<rparr>, ())"
    by code_simp
  have n: "ua_note sample_full_update = Some ''hi''"
    and v: "ua_organization sample_full_update = Some ''X''"
    and na: "ua_name sample_full_update = Some ''Ada King''"
    and ph: "ua_phones sample_full_update = Some [''+44 20 7946 0000'']"
    and i: "ua_identifier sample_full_update = ''Ada Lovelace''"
    and o0: "ua_organization sample_note_update = None"
    by (simp_all add: sample_full_update_def sample_note_update_def)
  have nf: "isl (fst (executeAppleScript sample_store w' (update_note_script ''ABC-1'' ''hi'')))"
    for w'
    by code_simp
  have os: "\<not> isl (fst (executeAppleScript sample_store w'
                          (update_organization_script ''ABC-1'' ''X'')))" for w'
    by code_simp
  have ns: "\<not> isl (fst (executeAppleScript sample_store w'
                          (update_name_script ''ABC-1'' ''Ada King'')))" for w'
    by code_simp
  have pc: "\<not> isl (fst (executeAppleScript sample_store w' (clear_phone_script ''ABC-1'')))"
    for w'
    by code_simp
  have pa: "\<not> isl (fst (executeAppleScript sample_store w'
                          (add_phone_script ''ABC-1'' [''+44 20 7946 0000''])))" for w'
    by code_simp
  have f: "succeeded_fields (block_outcomes sample_store ()
             (update_blocks ''ABC-1'' sample_full_update))
           = [''name'', ''organization'', ''job_title'', ''urls'', ''emails'', ''phones'']"
    by code_simp
  have l: "logged_failures (block_outcomes sample_store ()
             (update_blocks ''ABC-1'' sample_full_update))
           = [(''Failed to update note:'',
                 Error ''AppleScript execution failed: Error: Command failed: osascript'')]"
    by code_simp
  have z: "fst (updateContact sample_store () sample_note_update) =
       Inr \<lparr>ur_success = True, ur_message = ''Updated contact: Ada Lovelace'',
            ur_updated_fields = []\<rparr>"
    by code_simp
  from update_reports_fields_that_succeeded [OF h] obtain st
    where r: "updateContact sample_store () sample_full_update =
               (Inr \<lparr>ur_success = True,
                      ur_message = ''Updated contact: '' @ ua_identifier sample_full_update,
                      ur_updated_fields = us_updatedFields st\<rparr>, st)"
      and fs: "us_updatedFields st =
        succeeded_fields (block_outcomes sample_store () (update_blocks (c_id ?c) sample_full_update))"
      and cs: "us_console st =
        logged_failures (block_outcomes sample_store () (update_blocks (c_id ?c) sample_full_update))"
    by (elim exE conjE) (rule that; assumption)
  have fs': "us_updatedFields st =
      [''name'', ''organization'', ''job_title'', ''urls'', ''emails'', ''phones'']"
    using fs f by simp
  have cs': "us_console st = [(''Failed to update note:'',
                 Error ''AppleScript execution failed: Error: Command failed: osascript'')]"
    using cs l by simp
  have ex: "\<exists>st. updateContact sample_store () sample_full_update =
             (Inr \<lparr>ur_success = True, ur_message = ''Updated contact: Ada Lovelace'',
                    ur_updated_fields =
                      [''name'', ''organization'', ''job_title'', ''urls'', ''emails'',
                       ''phones'']\<rparr>, st)
           \<and> us_console st =
               [(''Failed to update note:'',
                 Error ''AppleScript execution failed: Error: Command failed: osascript'')]
           \<and> ''note'' \<notin> set (us_updatedFields st)
           \<and> ''organization'' \<in> set (us_updatedFields st)
           \<and> ''name'' \<in> set (us_updatedFields st)
           \<and> ''phones'' \<in> set (us_updatedFields st)"
    apply (rule exI [of _ st])
    using r cs' by (simp add: fs' i)
  show ?thesis
    using h n v na ph nf os ns pc pa ex o0 z by simp
qed

section \<open>The scripts an update runs\<close>

lemma run_scripts_logging:
  "run_scripts (logging osa) (w, tr) ss =
     (fst (run_scripts osa w ss), (snd (run_scripts osa w ss), tr @ executed osa w ss))"
proof (induction ss arbitrary: w tr)
  case Nil
  then show ?case by simp
next
  case (Cons s ss)
  obtain r w' where x: "executeAppleScript osa w s = (r, w')"
    by (cases "executeAppleScript osa w s") auto
  show ?case
    by (cases r) (simp_all add: executeAppleScript_logging x Cons.IH)
qed

lemma try_update_logging_world:
  "us_world (try_update (logging osa) field message (Some ss) st) =
     (snd (run_scripts osa (fst (us_world st)) ss),
      snd (us_world st) @ executed osa (fst (us_world st)) ss)"
proof -
  obtain w tr where wt: "us_world st = (w, tr)" by (cases "us_world st") auto
  show ?thesis
    by (cases "fst (run_scripts osa w ss)")
       (simp_all add: try_update_def wt run_scripts_logging)
qed

lemma foldl_try_update_logging:
  "snd (us_world
     (foldl (\<lambda>st (field, message, scripts). try_update (logging osa) field message scripts st)
        st blocks)) =
   snd (us_world st) @ scripts_run osa (fst (us_world st)) blocks"
proof (induction blocks arbitrary: st)
  case Nil
  then show ?case by simp
next
  case (Cons b blocks)
  obtain field message scripts where b: "b = (field, message, scripts)"
    by (cases b) auto
  show ?case
  proof (cases scripts)
    case None
    then show ?thesis using Cons.IH [of st] b by (simp add: try_update_def)
  next
    case (Some ss)
    show ?thesis
      using Cons.IH [of "try_update (logging osa) field message (Some ss) st"] b Some
      by (simp add: try_update_logging_world)
  qed
qed

lemma updateContact_scripts:
  assumes "getContact (logging osa) (w, []) (ua_identifier args) =
             (Inr \<lparr>g_success = True, g_message = None, g_contact = Some c\<rparr>, (w1, tr1))"
  shows "snd (us_world (snd (updateContact (logging osa) (w, []) args))) =
           tr1 @ scripts_run osa w1 (update_blocks (c_id c) args)"
  using assms foldl_try_update_logging
    [of osa "\<lparr>us_world = (w1, tr1), us_updatedFields = [], us_console = []\<rparr>"
        "update_blocks (c_id c) args"]
  by (simp add: updateContact_def update_fields_foldl Let_def)

lemma scripts_run_contains_first:
  "(F, m, Some (s # ss)) \<in> set blocks \<Longrightarrow> s \<in> set (scripts_run osa w blocks)"
proof (induction osa w blocks rule: scripts_run.induct)
  case (1 osa w)
  then show ?case by simp
next
  case (2 osa w field message blocks)
  then show ?case by auto
next
  case (3 osa w field message scripts blocks)
  show ?case
  proof (cases "(F, m, Some (s # ss)) = (field, message, Some scripts)")
    case True
    then show ?thesis by auto
  next
    case False
    then have "(F, m, Some (s # ss)) \<in> set blocks" using "3.prems" by auto
    from "3.IH" [OF this] show ?thesis by simp
  qed
qed

lemma scripts_run_contains_add:
  "(F, m, Some [clear, add]) \<in> set blocks \<Longrightarrow>
   (\<And>w'. \<not> isl (fst (executeAppleScript osa w' clear))) \<Longrightarrow>
   add \<in> set (scripts_run osa w blocks)"
proof (induction osa w blocks rule: scripts_run.induct)
  case (1 osa w)
  then show ?case by simp
next
  case (2 osa w field message blocks)
  then show ?case by auto
next
  case (3 osa w field message scripts blocks)
  show ?case
  proof (cases "(F, m, Some [clear, add]) = (field, message, Some scripts)")
    case True
    have "add \<in> set (executed osa w [clear, add])"
      using "3.prems"(2) [of w]
      by (cases "executeAppleScript osa w clear"; cases "fst (executeAppleScript osa w clear)")
         auto
    with True show ?thesis by auto
  next
    case False
    then have "(F, m, Some [clear, add]) \<in> set blocks" using "3.prems"(1) by auto
    from "3.IH" [OF this "3.prems"(2)] show ?thesis by simp
  qed
qed

text \<open>
  A collection that the request supplies has its clear script among the scripts of the
  update, and its add script too when the list is not empty and clearing succeeds.
\<close>

lemma update_runs_clear:
  assumes "getContact (logging osa) (w, []) (ua_identifier args) =
             (Inr \<lparr>g_success = True, g_message = None, g_contact = Some c\<rparr>, (w1, tr1))"
    and "\<exists>m. (F, m, Some (clear # rest)) \<in> set (update_blocks (c_id c) args)"
  shows "clear \<in> set (snd (us_world (snd (updateContact (logging osa) (w, []) args))))"
  using assms(2) scripts_run_contains_first [of F _ clear rest _ osa w1]
  unfolding updateContact_scripts [OF assms(1)] by auto

lemma update_runs_add:
  assumes "getContact (logging osa) (w, []) (ua_identifier args) =
             (Inr \<lparr>g_success = True, g_message = None, g_contact = Some c\<rparr>, (w1, tr1))"
    and "\<exists>m. (F, m, Some (clear # (if xs = [] then [] else [add]))) \<in>
           set (update_blocks (c_id c) args)"
    and "xs \<noteq> []"
    and "\<forall>w'. \<not> isl (fst (executeAppleScript osa w' clear))"
  shows "add \<in> set (snd (us_world (snd (updateContact (logging osa) (w, []) args))))"
proof -
  from assms(2,3) obtain m where "(F, m, Some [clear, add]) \<in> set (update_blocks (c_id c) args)"
    by auto
  from scripts_run_contains_add [OF this, of osa w1] assms(4)
  show ?thesis unfolding updateContact_scripts [OF assms(1)] by auto
qed

section \<open>Labels\<close>

lemma forEach_from_appends:
  assumes "\<And>x i s. f x i s = s @ g i x"
  shows "forEach_from f xs k s = s @ concat (map (\<lambda>(i, x). g i x) (enumerate k xs))"
  by (induction xs arbitrary: k s) (simp_all add: assms)

lemma forEach_appends:
  assumes "\<And>x i s. f x i s = s @ g i x"
  shows "forEach f xs s = s @ concat (map (\<lambda>(i, x). g i x) (enumerate 0 xs))"
  unfolding forEach_def by (rule forEach_from_appends [OF assms])

lemma forEach_appends_no_index:
  assumes "\<And>x i s. f x i s = s @ g x"
  shows "forEach f xs s = s @ concat (map g xs)"
proof -
  have "forEach_from f xs k s = s @ concat (map g xs)" for k
    by (induction xs arbitrary: k s) (simp_all add: assms)
  then show ?thesis by (simp add: forEach_def)
qed

lemma email_label_position: "email_label i = position_label ''email'' i"
  by (simp add: email_label_def position_label_def)

lemma phone_label_position: "phone_label i = position_label ''phone'' i"
  by (simp add: phone_label_def position_label_def)

lemma digit_char_digit: "digit_char d \<in> set ''0123456789''"
  unfolding digit_char_def by (rule nth_mem) simp

lemma nat_to_string_digits:
  "nat_to_string n \<noteq> [] \<and> set (nat_to_string n) \<subseteq> set ''0123456789''"
proof (induction n rule: nat_to_string.induct)
  case (1 n)
  show ?case
  proof (cases "n < 10")
    case True
    then show ?thesis using digit_char_digit [of n] by (subst (1 2) nat_to_string.simps) simp
  next
    case False
    then show ?thesis
      using "1.IH" digit_char_digit [of "n mod 10"]
      by (subst (1 2) nat_to_string.simps) simp
  qed
qed

lemma add_email_script_lines:
  \<open>add_email_script contactId emails =
     add_script_head contactId @
     concat (map (\<lambda>(i, email).
            ''\<newline>'' @
            ''  make new email at end of emails of targetPerson with properties {label:"'' @ position_label ''email'' i @ ''", value:"'' @ escapeForAppleScript email @ ''"}'')
       (enumerate 0 emails)) @
     add_script_tail\<close>
  unfolding add_email_script_def
  by (subst forEach_appends [where f = add_email_line])
     (simp_all add: add_email_line_def email_label_position)

lemma add_phone_script_lines:
  \<open>add_phone_script contactId phones =
     add_script_head contactId @
     concat (map (\<lambda>(i, phone).
            ''\<newline>'' @
            ''  make new phone at end of phones of targetPerson with properties {label:"'' @ position_label ''phone'' i @ ''", value:"'' @ escapeForAppleScript phone @ ''"}'')
       (enumerate 0 phones)) @
     add_script_tail\<close>
  unfolding add_phone_script_def
  by (subst forEach_appends [where f = add_phone_line])
     (simp_all add: add_phone_line_def phone_label_position)

lemma add_url_script_lines:
  \<open>add_url_script contactId urls =
     add_script_head contactId @
     concat (map (\<lambda>u.
            ''\<newline>'' @
            ''  make new url at end of urls of targetPerson with properties {label:"'' @ escapeForAppleScript (url_label u) @ ''", value:"'' @ escapeForAppleScript (url_value u) @ ''"}'')
       urls) @
     add_script_tail\<close>
  unfolding add_url_script_def
  by (subst forEach_appends_no_index [where f = add_url_line])
     (simp_all add: add_url_line_def)

lemma create_script_lines:
  \<open>create_script c =
     create_script_head (firstName_of (ci_name c)) (lastName_of (ci_name c))
       (ci_organization c) (ci_job_title c) (ci_note c) @
     concat (map (\<lambda>(i, email).
            ''\<newline>'' @
            ''        make new email at end of emails of newPerson with properties {label:"'' @ position_label ''email'' i @ ''", value:"'' @ escapeForAppleScript email @ ''"}'')
       (enumerate 0 (ci_emails c))) @
     concat (map (\<lambda>(i, phone).
            ''\<newline>'' @
            ''        make new phone at end of phones of newPerson with properties {label:"'' @ position_label ''phone'' i @ ''", value:"'' @ escapeForAppleScript phone @ ''"}'')
       (enumerate 0 (ci_phones c))) @
     concat (map (\<lambda>u.
            ''\<newline>'' @
            ''        make new url at end of urls of newPerson with properties {label:"'' @ escapeForAppleScript (url_label u) @ ''", value:"'' @ escapeForAppleScript (url_value u) @ ''"}'')
       (ci_urls c)) @
     create_script_tail\<close>
proof -
  have e: \<open>forEach create_email_line xs s = s @ concat (map (\<lambda>(i, email).
            ''\<newline>'' @
            ''        make new email at end of emails of newPerson with properties {label:"'' @ position_label ''email'' i @ ''", value:"'' @ escapeForAppleScript email @ ''"}'')
       (enumerate 0 xs))\<close> for xs s
    by (subst forEach_appends [where f = create_email_line])
       (simp_all add: create_email_line_def email_label_position)
  have p: \<open>forEach create_phone_line xs s = s @ concat (map (\<lambda>(i, phone).
            ''\<newline>'' @
            ''        make new phone at end of phones of newPerson with properties {label:"'' @ position_label ''phone'' i @ ''", value:"'' @ escapeForAppleScript phone @ ''"}'')
       (enumerate 0 xs))\<close> for xs s
    by (subst forEach_appends [where f = create_phone_line])
       (simp_all add: create_phone_line_def phone_label_position)
  have u: \<open>forEach create_url_line xs s = s @ concat (map (\<lambda>u.
            ''\<newline>'' @
            ''        make new url at end of urls of newPerson with properties {label:"'' @ escapeForAppleScript (url_label u) @ ''", value:"'' @ escapeForAppleScript (url_value u) @ ''"}'')
       xs)\<close> for xs s
    by (subst forEach_appends_no_index [where f = create_url_line])
       (simp_all add: create_url_line_def)
  show ?thesis
    unfolding create_script_def Let_def e p u
    by (cases "ci_emails c"; cases "ci_phones c"; cases "ci_urls c") simp_all
qed

text \<open>
  Claim C8. The one script that \<open>createContact\<close> runs, and the add scripts that
  \<open>updateContact\<close> runs for emails and phones, give each email and phone entry a label
  computed from its position in the list alone: \<open>home\<close> at index 0, \<open>work\<close> at index 1,
  and \<open>email\<close> or \<open>phone\<close> followed by the decimal number \<open>i + 1\<close> at every index \<open>i\<close>
  from 2 on. For urls the label is the label of the supplied pair, passed through the
  escaper like every other value.
\<close>

theorem labels_by_position:
  \<open>create_script c =
     create_script_head (firstName_of (ci_name c)) (lastName_of (ci_name c))
       (ci_organization c) (ci_job_title c) (ci_note c) @
     concat (map (\<lambda>(i, email).
            ''\<newline>'' @
            ''        make new email at end of emails of newPerson with properties {label:"'' @ position_label ''email'' i @ ''", value:"'' @ escapeForAppleScript email @ ''"}'')
       (enumerate 0 (ci_emails c))) @
     concat (map (\<lambda>(i, phone).
            ''\<newline>'' @
            ''        make new phone at end of phones of newPerson with properties {label:"'' @ position_label ''phone'' i @ ''", value:"'' @ escapeForAppleScript phone @ ''"}'')
       (enumerate 0 (ci_phones c))) @
     concat (map (\<lambda>u.
            ''\<newline>'' @
            ''        make new url at end of urls of newPerson with properties {label:"'' @ escapeForAppleScript (url_label u) @ ''", value:"'' @ escapeForAppleScript (url_value u) @ ''"}'')
       (ci_urls c)) @
     create_script_tail
   \<and> add_email_script contactId emails =
     add_script_head contactId @
     concat (map (\<lambda>(i, email).
            ''\<newline>'' @
            ''  make new email at end of emails of targetPerson with properties {label:"'' @ position_label ''email'' i @ ''", value:"'' @ escapeForAppleScript email @ ''"}'')
       (enumerate 0 emails)) @
     add_script_tail
   \<and> add_phone_script contactId phones =
     add_script_head contactId @
     concat (map (\<lambda>(i, phone).
            ''\<newline>'' @
            ''  make new phone at end of phones of targetPerson with properties {label:"'' @ position_label ''phone'' i @ ''", value:"'' @ escapeForAppleScript phone @ ''"}'')
       (enumerate 0 phones)) @
     add_script_tail
   \<and> add_url_script contactId urls =
     add_script_head contactId @
     concat (map (\<lambda>u.
            ''\<newline>'' @
            ''  make new url at end of urls of targetPerson with properties {label:"'' @ escapeForAppleScript (url_label u) @ ''", value:"'' @ escapeForAppleScript (url_value u) @ ''"}'')
       urls) @
     add_script_tail
   \<and> snd (snd (createContact (logging osa) (w, []) args)) =
       [create_script (create_defaults args)]
   \<and> ci_emails (create_defaults args) = (case ca_emails args of None \<Rightarrow> [] | Some v \<Rightarrow> v)
   \<and> ci_phones (create_defaults args) = (case ca_phones args of None \<Rightarrow> [] | Some v \<Rightarrow> v)
   \<and> ci_urls (create_defaults args) = (case ca_urls args of None \<Rightarrow> [] | Some v \<Rightarrow> v)
   \<and> (getContact (logging osa) (w, []) (ua_identifier uargs) =
         (Inr \<lparr>g_success = True, g_message = None, g_contact = Some existing\<rparr>, (w1, tr1))
       \<longrightarrow> (\<forall>xs. ua_emails uargs = Some xs \<longrightarrow> xs \<noteq> [] \<longrightarrow>
            (\<forall>w'. \<not> isl (fst (executeAppleScript osa w' (clear_email_script (c_id existing))))) \<longrightarrow>
            add_email_script (c_id existing) xs \<in>
              set (snd (us_world (snd (updateContact (logging osa) (w, []) uargs)))))
         \<and> (\<forall>xs. ua_phones uargs = Some xs \<longrightarrow> xs \<noteq> [] \<longrightarrow>
            (\<forall>w'. \<not> isl (fst (executeAppleScript osa w' (clear_phone_script (c_id existing))))) \<longrightarrow>
            add_phone_script (c_id existing) xs \<in>
              set (snd (us_world (snd (updateContact (logging osa) (w, []) uargs)))))
         \<and> (\<forall>xs. ua_urls uargs = Some xs \<longrightarrow> xs \<noteq> [] \<longrightarrow>
            (\<forall>w'. \<not> isl (fst (executeAppleScript osa w' (clear_url_script (c_id existing))))) \<longrightarrow>
            add_url_script (c_id existing) xs \<in>
              set (snd (us_world (snd (updateContact (logging osa) (w, []) uargs))))))
   \<and> position_label kind 0 = ''home''
   \<and> position_label kind 1 = ''work''
   \<and> position_label kind (i + 2) = kind @ nat_to_string (i + 3)
   \<and> nat_to_string n \<noteq> []
   \<and> set (nat_to_string n) \<subseteq> set ''0123456789''\<close>
proof -
  have pl: "position_label kind (i + 2) = kind @ nat_to_string (i + 3)"
    by (simp add: position_label_def numeral_3_eq_3)
  have cr: "snd (snd (createContact (logging osa) (w, []) args)) =
       [create_script (create_defaults args)]"
    by (simp add: createContact_def executeAppleScript_logging Let_def
        split: prod.splits sum.splits)
  have up: "(\<forall>xs. ua_emails uargs = Some xs \<longrightarrow> xs \<noteq> [] \<longrightarrow>
            (\<forall>w'. \<not> isl (fst (executeAppleScript osa w' (clear_email_script (c_id existing))))) \<longrightarrow>
            add_email_script (c_id existing) xs \<in>
              set (snd (us_world (snd (updateContact (logging osa) (w, []) uargs)))))
         \<and> (\<forall>xs. ua_phones uargs = Some xs \<longrightarrow> xs \<noteq> [] \<longrightarrow>
            (\<forall>w'. \<not> isl (fst (executeAppleScript osa w' (clear_phone_script (c_id existing))))) \<longrightarrow>
            add_phone_script (c_id existing) xs \<in>
              set (snd (us_world (snd (updateContact (logging osa) (w, []) uargs)))))
         \<and> (\<forall>xs. ua_urls uargs = Some xs \<longrightarrow> xs \<noteq> [] \<longrightarrow>
            (\<forall>w'. \<not> isl (fst (executeAppleScript osa w' (clear_url_script (c_id existing))))) \<longrightarrow>
            add_url_script (c_id existing) xs \<in>
              set (snd (us_world (snd (updateContact (logging osa) (w, []) uargs)))))"
    if g: "getContact (logging osa) (w, []) (ua_identifier uargs) =
         (Inr \<lparr>g_success = True, g_message = None, g_contact = Some existing\<rparr>, (w1, tr1))"
    apply (intro conjI allI impI)
      apply (rule update_runs_add [OF g emails_block(2)], assumption+)
     apply (rule update_runs_add [OF g phones_block(2)], assumption+)
    apply (rule update_runs_add [OF g urls_block(2)], assumption+)
    done
  show ?thesis
    apply (intro conjI impI)
                 apply (rule create_script_lines)
                apply (rule add_email_script_lines)
               apply (rule add_phone_script_lines)
              apply (rule add_url_script_lines)
             apply (rule cr)
            apply (simp add: create_defaults_def)
           apply (simp add: create_defaults_def)
          apply (simp add: create_defaults_def)
         apply (erule up [THEN conjunct1])
        apply (erule up [THEN conjunct2, THEN conjunct1])
       apply (erule up [THEN conjunct2, THEN conjunct2])
      apply (simp add: position_label_def)
     apply (simp add: position_label_def)
    apply (rule pl)
    using nat_to_string_digits [of n] apply simp_all
    done
qed

theorem labels_by_position_witness:
  \<open>snd (snd (createContact (logging sample_store) ((), []) sample_create)) =
     [''\<newline>'' @
      ''      tell application "Contacts"\<newline>'' @
      ''        set newPerson to make new person\<newline>'' @
      ''        \<newline>'' @
      ''        if "Ada" is not "" then\<newline>'' @
      ''          set first name of newPerson to "Ada"\<newline>'' @
      ''        end if\<newline>'' @
      ''        \<newline>'' @
      ''        if "Lovelace" is not "" then\<newline>'' @
      ''          set last name of newPerson to "Lovelace"\<newline>'' @
      ''        end if\<newline>'' @
      ''        \<newline>'' @
      ''        if "Analytical Engines" is not "" then\<newline>'' @
      ''          set organization of newPerson to "Analytical Engines"\<newline>'' @
      ''        end if\<newline>'' @
      ''        \<newline>'' @
      ''        if "" is not "" then\<newline>'' @
      ''          set job title of newPerson to ""\<newline>'' @
      ''        end if\<newline>'' @
      ''        \<newline>'' @
      ''        if "" is not "" then\<newline>'' @
      ''          set note of newPerson to ""\<newline>'' @
      ''        end if\<newline>'' @
      ''    \<newline>'' @
      ''        make new email at end of emails of newPerson with properties {label:"home", value:"ada@example.com"}\<newline>'' @
      ''        make new email at end of emails of newPerson with properties {label:"work", value:"countess@example.org"}\<newline>'' @
      ''        make new email at end of emails of newPerson with properties {label:"email3", value:"a@b.c"}\<newline>'' @
      ''        make new phone at end of phones of newPerson with properties {label:"home", value:"+44 20 7946 0000"}\<newline>'' @
      ''        make new url at end of urls of newPerson with properties {label:"LinkedIn", value:"https://example.com/ada"}\<newline>'' @
      ''        save\<newline>'' @
      ''        return id of newPerson\<newline>'' @
      ''      end tell\<newline>'' @
      ''    '']
   \<and> getContact (logging sample_store) ((), []) (ua_identifier sample_full_update) =
       (Inr \<lparr>g_success = True, g_message = None,
              g_contact = Some \<lparr>c_id = ''ABC-1'', c_name = ''Ada Lovelace'',
                c_organization = ''Analytical Engines'', c_job_title = [], c_note = [],
                c_emails = [''ada@example.com''], c_phones = [], c_urls = []\<rparr>\<rparr>,
        ((), [get_contact_script ''Ada Lovelace'', email_script ''ABC-1'',
              phone_script ''ABC-1'', url_script ''ABC-1'']))
   \<and> ua_emails sample_full_update =
       Some [''ada@example.com'', ''countess@example.org'', ''a@b.c'']
   \<and> (\<forall>w'. \<not> isl (fst (executeAppleScript sample_store w' (clear_email_script ''ABC-1''))))
   \<and> (''tell application "Contacts"\<newline>'' @
       ''  set targetPerson to person id "ABC-1"\<newline>'' @
       ''  make new email at end of emails of targetPerson with properties {label:"home", value:"ada@example.com"}\<newline>'' @
       ''  make new email at end of emails of targetPerson with properties {label:"work", value:"countess@example.org"}\<newline>'' @
       ''  make new email at end of emails of targetPerson with properties {label:"email3", value:"a@b.c"}\<newline>'' @
       ''  save\<newline>'' @
       ''end tell'') \<in>
       set (snd (us_world (snd (updateContact (logging sample_store) ((), [])
                                  sample_full_update))))\<close>
proof -
  let ?c = "\<lparr>c_id = ''ABC-1'', c_name = ''Ada Lovelace'',
                c_organization = ''Analytical Engines'', c_job_title = [], c_note = [],
                c_emails = [''ada@example.com''], c_phones = [], c_urls = []\<rparr>"
  let ?tr = "[get_contact_script ''Ada Lovelace'', email_script ''ABC-1'',
              phone_script ''ABC-1'', url_script ''ABC-1'']"
  note t = labels_by_position
    [where osa = sample_store and w = "()" and args = sample_create
       and uargs = sample_full_update and existing = ?c and ?w1.0 = "()" and ?tr1.0 = ?tr]
  have cs: \<open>create_script (create_defaults sample_create) =
     ''\<newline>'' @
      ''      tell application "Contacts"\<newline>'' @
      ''        set newPerson to make new person\<newline>'' @
      ''        \<newline>'' @
      ''        if "Ada" is not "" then\<newline>'' @
      ''          set first name of newPerson to "Ada"\<newline>'' @
      ''        end if\<newline>'' @
      ''        \<newline>'' @
      ''        if "Lovelace" is not "" then\<newline>'' @
      ''          set last name of newPerson to "Lovelace"\<newline>'' @
      ''        end if\<newline>'' @
      ''        \<newline>'' @
      ''        if "Analytical Engines" is not "" then\<newline>'' @
      ''          set organization of newPerson to "Analytical Engines"\<newline>'' @
      ''        end if\<newline>'' @
      ''        \<newline>'' @
      ''        if "" is not "" then\<newline>'' @
      ''          set job title of newPerson to ""\<newline>'' @
      ''        end if\<newline>'' @
      ''        \<newline>'' @
      ''        if "" is not "" then\<newline>'' @
      ''          set note of newPerson to ""\<newline>'' @
      ''        end if\<newline>'' @
      ''    \<newline>'' @
      ''        make new email at end of emails of newPerson with properties {label:"home", value:"ada@example.com"}\<newline>'' @
      ''        make new email at end of emails of newPerson with properties {label:"work", value:"countess@example.org"}\<newline>'' @
      ''        make new email at end of emails of newPerson with properties {label:"email3", value:"a@b.c"}\<newline>'' @
      ''        make new phone at end of phones of newPerson with properties {label:"home", value:"+44 20 7946 0000"}\<newline>'' @
      ''        make new url at end of urls of newPerson with properties {label:"LinkedIn", value:"https://example.com/ada"}\<newline>'' @
      ''        save\<newline>'' @
      ''        return id of newPerson\<newline>'' @
      ''      end tell\<newline>'' @
      ''    ''\<close>
    by code_simp
  have ae: \<open>add_email_script ''ABC-1'' [''ada@example.com'', ''countess@example.org'', ''a@b.c''] =
     ''tell application "Contacts"\<newline>'' @
       ''  set targetPerson to person id "ABC-1"\<newline>'' @
       ''  make new email at end of emails of targetPerson with properties {label:"home", value:"ada@example.com"}\<newline>'' @
       ''  make new email at end of emails of targetPerson with properties {label:"work", value:"countess@example.org"}\<newline>'' @
       ''  make new email at end of emails of targetPerson with properties {label:"email3", value:"a@b.c"}\<newline>'' @
       ''  save\<newline>'' @
       ''end tell''\<close>
    by code_simp
  have g: "getContact (logging sample_store) ((), []) (ua_identifier sample_full_update) =
       (Inr \<lparr>g_success = True, g_message = None, g_contact = Some ?c\<rparr>, ((), ?tr))"
    by code_simp
  have e: "ua_emails sample_full_update =
       Some [''ada@example.com'', ''countess@example.org'', ''a@b.c'']"
    by (simp add: sample_full_update_def)
  have ne: "[''ada@example.com'', ''countess@example.org'', ''a@b.c''] \<noteq> []" by simp
  have ok: "\<forall>w'. \<not> isl (fst (executeAppleScript sample_store w' (clear_email_script (c_id ?c))))"
    by (rule allI) code_simp
  note c1 = t [THEN conjunct2, THEN conjunct2, THEN conjunct2, THEN conjunct2,
      THEN conjunct1]
  note m = t [THEN conjunct2, THEN conjunct2, THEN conjunct2, THEN conjunct2,
      THEN conjunct2, THEN conjunct2, THEN conjunct2, THEN conjunct2, THEN conjunct1,
      THEN mp, OF g, THEN conjunct1, THEN spec, THEN mp, OF e, THEN mp, OF ne,
      THEN mp, OF ok]
  have ok': "\<forall>w'. \<not> isl (fst (executeAppleScript sample_store w' (clear_email_script ''ABC-1'')))"
    using ok by simp
  have m': "add_email_script ''ABC-1'' [''ada@example.com'', ''countess@example.org'', ''a@b.c'']
       \<in> set (snd (us_world (snd (updateContact (logging sample_store) ((), [])
                     sample_full_update))))"
    using m by simp
  show ?thesis
    apply (intro conjI)
        apply (simp only: c1 cs)
       apply (rule g)
      apply (rule e)
     apply (rule ok')
    apply (rule m' [unfolded ae])
    done
qed

section \<open>Update: collections are replaced, omitted fields are left alone\<close>

lemma executed_clear_then_add_length:
  "executed osa w (clear # (if length xs > 0 then [add] else [])) =
     clear # (if isl (fst (executeAppleScript osa w clear)) \<or> xs = [] then [] else [add])"
  by (cases "executeAppleScript osa w clear"; cases "fst (executeAppleScript osa w clear)")
     (auto split: prod.splits sum.splits)

text \<open>
  Claim C5. In an update, a block whose field the request leaves undefined runs no
  script and leaves the state as it is. The block of a collection field that the request
  supplies first runs the script that deletes every entry of the collection and then,
  when that script succeeded and the list is not empty, one script that makes the
  supplied entries in their order; it never adds without having cleared. The scripts
  that \<open>updateContact\<close> runs after the existence check are those of its blocks, in
  order: for a supplied collection the clear script is always among them, and the add
  script too when the list is not empty and clearing succeeds.
\<close>

theorem update_replaces_collections:
  \<open>(ua_emails args = None \<longrightarrow>
      try_update osa ''emails'' message (emails_scripts contactId args) st = st)
   \<and> (ua_phones args = None \<longrightarrow>
      try_update osa ''phones'' message (phones_scripts contactId args) st = st)
   \<and> (ua_urls args = None \<longrightarrow>
      try_update osa ''urls'' message (urls_scripts contactId args) st = st)
   \<and> (ua_name args = None \<longrightarrow>
      try_update osa ''name'' message (name_scripts contactId args) st = st)
   \<and> (ua_organization args = None \<longrightarrow>
      try_update osa ''organization'' message (organization_scripts contactId args) st = st)
   \<and> (ua_job_title args = None \<longrightarrow>
      try_update osa ''job_title'' message (job_title_scripts contactId args) st = st)
   \<and> (ua_note args = None \<longrightarrow>
      try_update osa ''note'' message (note_scripts contactId args) st = st)
   \<and> (ua_emails args = Some emails \<longrightarrow>
      snd (us_world (try_update (logging osa) ''emails'' message
                       (emails_scripts contactId args) lst)) =
      snd (us_world lst) @
      clear_email_script contactId #
      (if isl (fst (executeAppleScript osa (fst (us_world lst))
                      (clear_email_script contactId))) \<or> emails = []
       then [] else [add_email_script contactId emails]))
   \<and> (ua_phones args = Some phones \<longrightarrow>
      snd (us_world (try_update (logging osa) ''phones'' message
                       (phones_scripts contactId args) lst)) =
      snd (us_world lst) @
      clear_phone_script contactId #
      (if isl (fst (executeAppleScript osa (fst (us_world lst))
                      (clear_phone_script contactId))) \<or> phones = []
       then [] else [add_phone_script contactId phones]))
   \<and> (ua_urls args = Some urls \<longrightarrow>
      snd (us_world (try_update (logging osa) ''urls'' message
                       (urls_scripts contactId args) lst)) =
      snd (us_world lst) @
      clear_url_script contactId #
      (if isl (fst (executeAppleScript osa (fst (us_world lst))
                      (clear_url_script contactId))) \<or> urls = []
       then [] else [add_url_script contactId urls]))
   \<and> clear_email_script contactId =
       ''tell application "Contacts"\<newline>'' @
       ''  set targetPerson to person id "'' @ contactId @ ''"\<newline>'' @
       ''  delete every email of targetPerson\<newline>'' @
       ''  save\<newline>'' @
       ''end tell''
   \<and> clear_phone_script contactId =
       ''tell application "Contacts"\<newline>'' @
       ''  set targetPerson to person id "'' @ contactId @ ''"\<newline>'' @
       ''  delete every phone of targetPerson\<newline>'' @
       ''  save\<newline>'' @
       ''end tell''
   \<and> clear_url_script contactId =
       ''tell application "Contacts"\<newline>'' @
       ''  set targetPerson to person id "'' @ contactId @ ''"\<newline>'' @
       ''  delete every url of targetPerson\<newline>'' @
       ''  save\<newline>'' @
       ''end tell''
   \<and> add_email_script contactId emails =
       ''tell application "Contacts"\<newline>'' @
       ''  set targetPerson to person id "'' @ contactId @ ''"'' @
       concat (map (\<lambda>(i, email).
              ''\<newline>'' @
              ''  make new email at end of emails of targetPerson with properties {label:"'' @ position_label ''email'' i @ ''", value:"'' @ escapeForAppleScript email @ ''"}'')
         (enumerate 0 emails)) @
       ''\<newline>'' @
       ''  save\<newline>'' @
       ''end tell''
   \<and> add_phone_script contactId phones =
       ''tell application "Contacts"\<newline>'' @
       ''  set targetPerson to person id "'' @ contactId @ ''"'' @
       concat (map (\<lambda>(i, phone).
              ''\<newline>'' @
              ''  make new phone at end of phones of targetPerson with properties {label:"'' @ position_label ''phone'' i @ ''", value:"'' @ escapeForAppleScript phone @ ''"}'')
         (enumerate 0 phones)) @
       ''\<newline>'' @
       ''  save\<newline>'' @
       ''end tell''
   \<and> add_url_script contactId urls =
       ''tell application "Contacts"\<newline>'' @
       ''  set targetPerson to person id "'' @ contactId @ ''"'' @
       concat (map (\<lambda>u.
              ''\<newline>'' @
              ''  make new url at end of urls of targetPerson with properties {label:"'' @ escapeForAppleScript (url_label u) @ ''", value:"'' @ escapeForAppleScript (url_value u) @ ''"}'')
         urls) @
       ''\<newline>'' @
       ''  save\<newline>'' @
       ''end tell''
   \<and> (getContact (logging osa) (w, []) (ua_identifier args) =
         (Inr \<lparr>g_success = True, g_message = None, g_contact = Some c\<rparr>, (w1, tr1))
       \<longrightarrow> snd (us_world (snd (updateContact (logging osa) (w, []) args))) =
             tr1 @ scripts_run osa w1 (update_blocks (c_id c) args)
          \<and> (\<forall>xs. ua_emails args = Some xs \<longrightarrow>
              clear_email_script (c_id c) \<in>
                set (snd (us_world (snd (updateContact (logging osa) (w, []) args)))))
          \<and> (\<forall>xs. ua_emails args = Some xs \<longrightarrow> xs \<noteq> [] \<longrightarrow>
              (\<forall>w'. \<not> isl (fst (executeAppleScript osa w' (clear_email_script (c_id c))))) \<longrightarrow>
              add_email_script (c_id c) xs \<in>
                set (snd (us_world (snd (updateContact (logging osa) (w, []) args)))))
          \<and> (\<forall>xs. ua_phones args = Some xs \<longrightarrow>
              clear_phone_script (c_id c) \<in>
                set (snd (us_world (snd (updateContact (logging osa) (w, []) args)))))
          \<and> (\<forall>xs. ua_phones args = Some xs \<longrightarrow> xs \<noteq> [] \<longrightarrow>
              (\<forall>w'. \<not> isl (fst (executeAppleScript osa w' (clear_phone_script (c_id c))))) \<longrightarrow>
              add_phone_script (c_id c) xs \<in>
                set (snd (us_world (snd (updateContact (logging osa) (w, []) args)))))
          \<and> (\<forall>xs. ua_urls args = Some xs \<longrightarrow>
              clear_url_script (c_id c) \<in>
                set (snd (us_world (snd (updateContact (logging osa) (w, []) args)))))
          \<and> (\<forall>xs. ua_urls args = Some xs \<longrightarrow> xs \<noteq> [] \<longrightarrow>
              (\<forall>w'. \<not> isl (fst (executeAppleScript osa w' (clear_url_script (c_id c))))) \<longrightarrow>
              add_url_script (c_id c) xs \<in>
                set (snd (us_world (snd (updateContact (logging osa) (w, []) args))))))\<close>
proof -
  have omitted: "try_update osa field message None st = st" for field
    by (simp add: try_update_def)
  have supplied: "snd (us_world (try_update (logging osa) field message
                    (Some (clear # (if length xs > 0 then [add] else []))) lst)) =
      snd (us_world lst) @
      clear # (if isl (fst (executeAppleScript osa (fst (us_world lst)) clear)) \<or> xs = []
               then [] else [add])" for field clear add and xs :: "'b list"
    by (simp only: try_update_logging_world snd_conv executed_clear_then_add_length)
  have whole: "snd (us_world (snd (updateContact (logging osa) (w, []) args))) =
             tr1 @ scripts_run osa w1 (update_blocks (c_id c) args)
          \<and> (\<forall>xs. ua_emails args = Some xs \<longrightarrow>
              clear_email_script (c_id c) \<in>
                set (snd (us_world (snd (updateContact (logging osa) (w, []) args)))))
          \<and> (\<forall>xs. ua_emails args = Some xs \<longrightarrow> xs \<noteq> [] \<longrightarrow>
              (\<forall>w'. \<not> isl (fst (executeAppleScript osa w' (clear_email_script (c_id c))))) \<longrightarrow>
              add_email_script (c_id c) xs \<in>
                set (snd (us_world (snd (updateContact (logging osa) (w, []) args)))))
          \<and> (\<forall>xs. ua_phones args = Some xs \<longrightarrow>
              clear_phone_script (c_id c) \<in>
                set (snd (us_world (snd (updateContact (logging osa) (w, []) args)))))
          \<and> (\<forall>xs. ua_phones args = Some xs \<longrightarrow> xs \<noteq> [] \<longrightarrow>
              (\<forall>w'. \<not> isl (fst (executeAppleScript osa w' (clear_phone_script (c_id c))))) \<longrightarrow>
              add_phone_script (c_id c) xs \<in>
                set (snd (us_world (snd (updateContact (logging osa) (w, []) args)))))
          \<and> (\<forall>xs. ua_urls args = Some xs \<longrightarrow>
              clear_url_script (c_id c) \<in>
                set (snd (us_world (snd (updateContact (logging osa) (w, []) args)))))
          \<and> (\<forall>xs. ua_urls args = Some xs \<longrightarrow> xs \<noteq> [] \<longrightarrow>
              (\<forall>w'. \<not> isl (fst (executeAppleScript osa w' (clear_url_script (c_id c))))) \<longrightarrow>
              add_url_script (c_id c) xs \<in>
                set (snd (us_world (snd (updateContact (logging osa) (w, []) args)))))"
    if g: "getContact (logging osa) (w, []) (ua_identifier args) =
         (Inr \<lparr>g_success = True, g_message = None, g_contact = Some c\<rparr>, (w1, tr1))"
    apply (intro conjI allI impI)
          apply (rule updateContact_scripts [OF g])
         apply (rule update_runs_clear [OF g emails_block(2)], assumption)
        apply (rule update_runs_add [OF g emails_block(2)], assumption+)
       apply (rule update_runs_clear [OF g phones_block(2)], assumption)
      apply (rule update_runs_add [OF g phones_block(2)], assumption+)
     apply (rule update_runs_clear [OF g urls_block(2)], assumption)
    apply (rule update_runs_add [OF g urls_block(2)], assumption+)
    done
  show ?thesis
    apply (intro conjI impI)
                    apply (simp add: emails_scripts_def omitted)
                   apply (simp add: phones_scripts_def omitted)
                  apply (simp add: urls_scripts_def omitted)
                 apply (simp add: name_scripts_def omitted)
                apply (simp add: organization_scripts_def omitted)
               apply (simp add: job_title_scripts_def omitted)
              apply (simp add: note_scripts_def omitted)
             apply (simp only: emails_scripts_def option.map supplied)
            apply (simp only: phones_scripts_def option.map supplied)
           apply (simp only: urls_scripts_def option.map supplied)
          apply (simp add: clear_email_script_def)
         apply (simp add: clear_phone_script_def)
        apply (simp add: clear_url_script_def)
       apply (simp add: add_email_script_lines add_script_head_def add_script_tail_def)
      apply (simp add: add_phone_script_lines add_script_head_def add_script_tail_def)
     apply (simp add: add_url_script_lines add_script_head_def add_script_tail_def)
          apply (drule whole, elim conjE, assumption)
         apply (drule whole, elim conjE, assumption)
        apply (drule whole, elim conjE, assumption)
       apply (drule whole, elim conjE, assumption)
      apply (drule whole, elim conjE, assumption)
     apply (drule whole, elim conjE, assumption)
    apply (drule whole, elim conjE, assumption)
    done
qed

theorem update_replaces_collections_witness:
  \<open>ua_emails sample_full_update = Some [''ada@example.com'', ''countess@example.org'', ''a@b.c'']
   \<and> ua_phones sample_full_update = Some [''+44 20 7946 0000'']
   \<and> ua_urls sample_full_update = Some [\<lparr>url_label = ''LinkedIn'', url_value = ''https://example.com/ada''\<rparr>]
   \<and> getContact (logging sample_store) ((), []) (ua_identifier sample_full_update) =
       (Inr \<lparr>g_success = True, g_message = None,
              g_contact = Some \<lparr>c_id = ''ABC-1'', c_name = ''Ada Lovelace'',
                c_organization = ''Analytical Engines'', c_job_title = [], c_note = [],
                c_emails = [''ada@example.com''], c_phones = [], c_urls = []\<rparr>\<rparr>,
        ((), [get_contact_script ''Ada Lovelace'', email_script ''ABC-1'',
              phone_script ''ABC-1'', url_script ''ABC-1'']))
   \<and> snd (us_world (snd (updateContact (logging sample_store) ((), []) sample_full_update))) =
       [get_contact_script ''Ada Lovelace'', email_script ''ABC-1'', phone_script ''ABC-1'',
        url_script ''ABC-1'',
        update_name_script ''ABC-1'' ''Ada King'',
        update_organization_script ''ABC-1'' ''X'',
        update_job_title_script ''ABC-1'' ''Countess'',
        update_note_script ''ABC-1'' ''hi'',
        clear_url_script ''ABC-1'',
        add_url_script ''ABC-1'' [\<lparr>url_label = ''LinkedIn'', url_value = ''https://example.com/ada''\<rparr>],
        clear_email_script ''ABC-1'',
        add_email_script ''ABC-1'' [''ada@example.com'', ''countess@example.org'', ''a@b.c''],
        clear_phone_script ''ABC-1'',
        add_phone_script ''ABC-1'' [''+44 20 7946 0000'']]
   \<and> clear_url_script ''ABC-1'' =
       ''tell application "Contacts"\<newline>'' @
       ''  set targetPerson to person id "ABC-1"\<newline>'' @
       ''  delete every url of targetPerson\<newline>'' @
       ''  save\<newline>'' @
       ''end tell''
   \<and> add_url_script ''ABC-1'' [\<lparr>url_label = ''LinkedIn'', url_value = ''https://example.com/ada''\<rparr>] =
       ''tell application "Contacts"\<newline>'' @
       ''  set targetPerson to person id "ABC-1"\<newline>'' @
       ''  make new url at end of urls of targetPerson with properties {label:"LinkedIn", value:"https://example.com/ada"}\<newline>'' @
       ''  save\<newline>'' @
       ''end tell''
   \<and> clear_email_script ''ABC-1'' =
       ''tell application "Contacts"\<newline>'' @
       ''  set targetPerson to person id "ABC-1"\<newline>'' @
       ''  delete every email of targetPerson\<newline>'' @
       ''  save\<newline>'' @
       ''end tell''
   \<and> add_email_script ''ABC-1'' [''ada@example.com'', ''countess@example.org'', ''a@b.c''] =
       ''tell application "Contacts"\<newline>'' @
       ''  set targetPerson to person id "ABC-1"\<newline>'' @
       ''  make new email at end of emails of targetPerson with properties {label:"home", value:"ada@example.com"}\<newline>'' @
       ''  make new email at end of emails of targetPerson with properties {label:"work", value:"countess@example.org"}\<newline>'' @
       ''  make new email at end of emails of targetPerson with properties {label:"email3", value:"a@b.c"}\<newline>'' @
       ''  save\<newline>'' @
       ''end tell''
   \<and> clear_phone_script ''ABC-1'' =
       ''tell application "Contacts"\<newline>'' @
       ''  set targetPerson to person id "ABC-1"\<newline>'' @
       ''  delete every phone of targetPerson\<newline>'' @
       ''  save\<newline>'' @
       ''end tell''
   \<and> add_phone_script ''ABC-1'' [''+44 20 7946 0000''] =
       ''tell application "Contacts"\<newline>'' @
       ''  set targetPerson to person id "ABC-1"\<newline>'' @
       ''  make new phone at end of phones of targetPerson with properties {label:"home", value:"+44 20 7946 0000"}\<newline>'' @
       ''  save\<newline>'' @
       ''end tell''
   \<and> ua_phones sample_emails_update = None
   \<and> try_update sample_store ''phones'' ''Failed to update phones:''
         (phones_scripts ''ABC-1'' sample_emails_update)
         \<lparr>us_world = (), us_updatedFields = [''emails''], us_console = []\<rparr> =
       \<lparr>us_world = (), us_updatedFields = [''emails''], us_console = []\<rparr>
   \<and> snd (us_world (snd (updateContact (logging sample_store) ((), []) sample_emails_update))) =
       [get_contact_script ''ABC-1'', email_script ''ABC-1'', phone_script ''ABC-1'',
        url_script ''ABC-1'',
        clear_email_script ''ABC-1'',
        add_email_script ''ABC-1'' [''ada@example.com'', ''countess@example.org'', ''a@b.c'']]\<close>
proof -
  let ?c = "\<lparr>c_id = ''ABC-1'', c_name = ''Ada Lovelace'',
                c_organization = ''Analytical Engines'', c_job_title = [], c_note = [],
                c_emails = [''ada@example.com''], c_phones = [], c_urls = []\<rparr>"
  let ?tr = "[get_contact_script ''Ada Lovelace'', email_script ''ABC-1'',
              phone_script ''ABC-1'', url_script ''ABC-1'']"
  let ?tr2 = "[get_contact_script ''ABC-1'', email_script ''ABC-1'',
              phone_script ''ABC-1'', url_script ''ABC-1'']"
  have e: "ua_emails sample_full_update = Some [''ada@example.com'', ''countess@example.org'', ''a@b.c'']"
    and p: "ua_phones sample_full_update = Some [''+44 20 7946 0000'']"
    and u: "ua_urls sample_full_update = Some [\<lparr>url_label = ''LinkedIn'', url_value = ''https://example.com/ada''\<rparr>]"
    and p0: "ua_phones sample_emails_update = None"
    by (simp_all add: sample_full_update_def sample_emails_update_def)
  have g: "getContact (logging sample_store) ((), []) (ua_identifier sample_full_update) =
       (Inr \<lparr>g_success = True, g_message = None, g_contact = Some ?c\<rparr>, ((), ?tr))"
    by code_simp
  have g2: "getContact (logging sample_store) ((), []) (ua_identifier sample_emails_update) =
       (Inr \<lparr>g_success = True, g_message = None, g_contact = Some ?c\<rparr>, ((), ?tr2))"
    by code_simp
  have r: "scripts_run sample_store () (update_blocks (c_id ?c) sample_full_update) =
       [update_name_script ''ABC-1'' ''Ada King'',
        update_organization_script ''ABC-1'' ''X'',
        update_job_title_script ''ABC-1'' ''Countess'',
        update_note_script ''ABC-1'' ''hi'',
        clear_url_script ''ABC-1'',
        add_url_script ''ABC-1'' [\<lparr>url_label = ''LinkedIn'', url_value = ''https://example.com/ada''\<rparr>],
        clear_email_script ''ABC-1'',
        add_email_script ''ABC-1'' [''ada@example.com'', ''countess@example.org'', ''a@b.c''],
        clear_phone_script ''ABC-1'',
        add_phone_script ''ABC-1'' [''+44 20 7946 0000'']]"
    by code_simp
  have r2: "scripts_run sample_store () (update_blocks (c_id ?c) sample_emails_update) =
       [clear_email_script ''ABC-1'',
        add_email_script ''ABC-1'' [''ada@example.com'', ''countess@example.org'', ''a@b.c'']]"
    by code_simp
  have cu: \<open>clear_url_script ''ABC-1'' =
       ''tell application "Contacts"\<newline>'' @
       ''  set targetPerson to person id "ABC-1"\<newline>'' @
       ''  delete every url of targetPerson\<newline>'' @
       ''  save\<newline>'' @
       ''end tell''\<close>
    by code_simp
  have au: \<open>add_url_script ''ABC-1'' [\<lparr>url_label = ''LinkedIn'', url_value = ''https://example.com/ada''\<rparr>] =
       ''tell application "Contacts"\<newline>'' @
       ''  set targetPerson to person id "ABC-1"\<newline>'' @
       ''  make new url at end of urls of targetPerson with properties {label:"LinkedIn", value:"https://example.com/ada"}\<newline>'' @
       ''  save\<newline>'' @
       ''end tell''\<close>
    by code_simp
  have ce: \<open>clear_email_script ''ABC-1'' =
       ''tell application "Contacts"\<newline>'' @
       ''  set targetPerson to person id "ABC-1"\<newline>'' @
       ''  delete every email of targetPerson\<newline>'' @
       ''  save\<newline>'' @
       ''end tell''\<close>
    by code_simp
  have ae: \<open>add_email_script ''ABC-1'' [''ada@example.com'', ''countess@example.org'', ''a@b.c''] =
       ''tell application "Contacts"\<newline>'' @
       ''  set targetPerson to person id "ABC-1"\<newline>'' @
       ''  make new email at end of emails of targetPerson with properties {label:"home", value:"ada@example.com"}\<newline>'' @
       ''  make new email at end of emails of targetPerson with properties {label:"work", value:"countess@example.org"}\<newline>'' @
       ''  make new email at end of emails of targetPerson with properties {label:"email3", value:"a@b.c"}\<newline>'' @
       ''  save\<newline>'' @
       ''end tell''\<close>
    by code_simp
  have cp: \<open>clear_phone_script ''ABC-1'' =
       ''tell application "Contacts"\<newline>'' @
       ''  set targetPerson to person id "ABC-1"\<newline>'' @
       ''  delete every phone of targetPerson\<newline>'' @
       ''  save\<newline>'' @
       ''end tell''\<close>
    by code_simp
  have ap: \<open>add_phone_script ''ABC-1'' [''+44 20 7946 0000''] =
       ''tell application "Contacts"\<newline>'' @
       ''  set targetPerson to person id "ABC-1"\<newline>'' @
       ''  make new phone at end of phones of targetPerson with properties {label:"home", value:"+44 20 7946 0000"}\<newline>'' @
       ''  save\<newline>'' @
       ''end tell''\<close>
    by code_simp
  note t = update_replaces_collections
    [where args = sample_full_update and osa = sample_store and w = "()" and c = ?c
       and ?w1.0 = "()" and ?tr1.0 = ?tr]
  note whole = t [THEN conjunct2, THEN conjunct2, THEN conjunct2, THEN conjunct2, THEN conjunct2, THEN conjunct2, THEN conjunct2, THEN conjunct2, THEN conjunct2, THEN conjunct2, THEN conjunct2, THEN conjunct2, THEN conjunct2, THEN conjunct2, THEN conjunct2, THEN conjunct2, THEN mp, OF g, THEN conjunct1]
  note t2 = update_replaces_collections
    [where args = sample_emails_update and osa = sample_store
       and message = "''Failed to update phones:''" and contactId = "''ABC-1''"
       and st = "\<lparr>us_world = (), us_updatedFields = [''emails''], us_console = []\<rparr>"
       and w = "()" and c = ?c and ?w1.0 = "()" and ?tr1.0 = ?tr2]
  note whole2 = t2 [THEN conjunct2, THEN conjunct2, THEN conjunct2, THEN conjunct2, THEN conjunct2, THEN conjunct2, THEN conjunct2, THEN conjunct2, THEN conjunct2, THEN conjunct2, THEN conjunct2, THEN conjunct2, THEN conjunct2, THEN conjunct2, THEN conjunct2, THEN conjunct2, THEN mp, OF g2, THEN conjunct1]
  note phones_left = t2 [THEN conjunct2, THEN conjunct1, THEN mp, OF p0]
  have w1: "snd (us_world (snd (updateContact (logging sample_store) ((), [])
              sample_full_update))) = ?tr @ [update_name_script ''ABC-1'' ''Ada King'',
        update_organization_script ''ABC-1'' ''X'',
        update_job_title_script ''ABC-1'' ''Countess'',
        update_note_script ''ABC-1'' ''hi'',
        clear_url_script ''ABC-1'',
        add_url_script ''ABC-1'' [\<lparr>url_label = ''LinkedIn'', url_value = ''https://example.com/ada''\<rparr>],
        clear_email_script ''ABC-1'',
        add_email_script ''ABC-1'' [''ada@example.com'', ''countess@example.org'', ''a@b.c''],
        clear_phone_script ''ABC-1'',
        add_phone_script ''ABC-1'' [''+44 20 7946 0000'']]"
    using whole unfolding r .
  have w2: "snd (us_world (snd (updateContact (logging sample_store) ((), [])
              sample_emails_update))) = ?tr2 @ [clear_email_script ''ABC-1'',
        add_email_script ''ABC-1'' [''ada@example.com'', ''countess@example.org'', ''a@b.c'']]"
    using whole2 unfolding r2 .
  show ?thesis
    apply (intro conjI)
                 apply (rule e)
                apply (rule p)
               apply (rule u)
              apply (rule g)
             apply (simp only: w1 append.simps)
            apply (rule cu)
           apply (rule au)
          apply (rule ce)
         apply (rule ae)
        apply (rule cp)
       apply (rule ap)
      apply (rule p0)
     apply (rule phones_left)
    apply (simp only: w2 append.simps)
    done
qed

end
